theory Spec2Isabelle
  imports Complex_Main "HOL-Library.Sublist" "HOL-Library.Code_Target_Nat"
begin

section \<open>Python strings\<close>

text \<open>
  A Python \<open>str\<close> is modelled as a \<^typ>\<open>string\<close> whose characters are code points below
  128 (ASCII text, which is what the keyword tables, the date formats and the amount syntax of
  the program are written in).
\<close>

text \<open>\<open>str.isspace\<close> on one character, also the class \<open>\s\<close> of \<open>re\<close>: the code points
  9 to 13, 28 to 31 and 32.\<close>

definition isspace :: "char \<Rightarrow> bool" where
  "isspace c = List.member
     [CHR 0x09, CHR 0x0A, CHR 0x0B, CHR 0x0C, CHR 0x0D, CHR 0x1C, CHR 0x1D, CHR 0x1E, CHR 0x1F, CHR '' ''] c"

definition isdigit :: "char \<Rightarrow> bool" where
  "isdigit c = List.member ''0123456789'' c"

text \<open>\<open>str.strip()\<close>: leading and trailing whitespace removed.\<close>

definition strip :: "string \<Rightarrow> string" where
  "strip s = rev (dropWhile isspace (rev (dropWhile isspace s)))"

definition lower_char :: "char \<Rightarrow> char" where
  "lower_char c =
     (case map_of (zip ''ABCDEFGHIJKLMNOPQRSTUVWXYZ'' ''abcdefghijklmnopqrstuvwxyz'') c of
        Some d \<Rightarrow> d
      | None \<Rightarrow> c)"

text \<open>\<open>str.lower()\<close>.\<close>

definition lower :: "string \<Rightarrow> string" where
  "lower s = map lower_char s"

text \<open>\<open>sep.join(xs)\<close>.\<close>

fun join :: "string \<Rightarrow> string list \<Rightarrow> string" where
  "join sep [] = []"
| "join sep [x] = x"
| "join sep (x # y # ys) = x @ sep @ join sep (y # ys)"

text \<open>\<open>k in s\<close> on strings: \<open>k\<close> occurs in \<open>s\<close> as a contiguous piece.\<close>

fun contains :: "string \<Rightarrow> string \<Rightarrow> bool" where
  "contains k [] = (k = [])"
| "contains k (c # cs) = (prefix k (c # cs) \<or> contains k cs)"

text \<open>\<open>s.startswith(p)\<close> and \<open>s.endswith(p)\<close>.\<close>

definition startswith :: "string \<Rightarrow> string \<Rightarrow> bool" where
  "startswith s p = prefix p s"

definition endswith :: "string \<Rightarrow> string \<Rightarrow> bool" where
  "endswith s p = suffix p s"

section \<open>TableParser: classification\<close>

text \<open>
  A cell of a table extracted by pdfplumber is \<open>None\<close> or a string. A table, as
  \<open>extract_tables_from_pdf\<close> builds it: the page, the number of the table on the page, the raw
  rows, the first raw row as headers and the others as data rows.
\<close>

type_synonym cell = "string option"

record table_info =
  page :: nat
  table_number :: nat
  raw_data :: "cell list list"
  headers :: "cell list"
  rows :: "cell list list"

definition CAPITAL_CALL_KEYWORDS :: "string list" where
  "CAPITAL_CALL_KEYWORDS = [''capital call'', ''call number'', ''capital contribution'', ''capital drawdown'']"

definition DISTRIBUTION_KEYWORDS :: "string list" where
  "DISTRIBUTION_KEYWORDS = [''distribution'', ''return of capital'', ''dividend'', ''recallable'']"

definition ADJUSTMENT_KEYWORDS :: "string list" where
  "ADJUSTMENT_KEYWORDS = [''adjustment'', ''rebalance'', ''recalled distribution'', ''capital call adjustment'']"

text \<open>\<open>str(c) for c in cells if c\<close>: the cells that are neither \<open>None\<close> nor empty.\<close>

fun truthy_cells :: "cell list \<Rightarrow> string list" where
  "truthy_cells [] = []"
| "truthy_cells (None # cs) = truthy_cells cs"
| "truthy_cells (Some s # cs) = (if s = [] then truthy_cells cs else s # truthy_cells cs)"

text \<open>The text that \<open>classify_table_type\<close> searches: the headers and the first five rows,
  joined by blanks and lowercased.\<close>

definition text_to_check :: "table_info \<Rightarrow> string" where
  "text_to_check t =
     lower (join '' ''
       [join '' '' (truthy_cells (headers t)),
        join '' '' (map (\<lambda>row. join '' '' (truthy_cells row)) (take 5 (rows t)))])"

text \<open>\<open>any(keyword in text for keyword in keywords)\<close>.\<close>

definition any_keyword :: "string list \<Rightarrow> string \<Rightarrow> bool" where
  "any_keyword keywords text = list_ex (\<lambda>keyword. contains keyword text) keywords"

definition classify_table_type :: "table_info \<Rightarrow> string option" where
  "classify_table_type t =
     (let text = text_to_check t in
      if any_keyword CAPITAL_CALL_KEYWORDS text then Some ''capital_calls''
      else if any_keyword DISTRIBUTION_KEYWORDS text then Some ''distributions''
      else if any_keyword ADJUSTMENT_KEYWORDS text then Some ''adjustments''
      else None)"

section \<open>decimal.Decimal\<close>

text \<open>
  A \<open>Decimal\<close> is a finite number (sign, coefficient, exponent: the value is
  \<open>\<plusminus> coefficient * 10 ^ exponent\<close>), an infinity, or a quiet or signalling NaN with its
  payload. The sign is \<open>True\<close> for a negative number. The arithmetic context is Python's default
  one: precision 28, rounding half-even, \<open>Emax = 999999\<close>, \<open>Emin = -999999\<close>, no clamping,
  with \<open>InvalidOperation\<close>, \<open>DivisionByZero\<close> and \<open>Overflow\<close> raised as exceptions.
\<close>

datatype decimal =
    Finite bool nat int
  | Infinity bool
  | NaN bool bool nat

definition digit_val :: "char \<Rightarrow> nat" where
  "digit_val c =
     (case map_of (zip ''0123456789'' [0, 1, 2, 3, 4, 5, 6, 7, 8, 9]) c of
        Some n \<Rightarrow> n
      | None \<Rightarrow> 0)"

text \<open>\<open>int(s)\<close> for a string of digits (0 for the empty string, where it is used).\<close>

definition int_of_digits :: "string \<Rightarrow> nat" where
  "int_of_digits s = foldl (\<lambda>n c. 10 * n + digit_val c) 0 s"

definition split_sign :: "string \<Rightarrow> bool \<times> string" where
  "split_sign s =
     (case s of
        [] \<Rightarrow> (False, [])
      | c # cs \<Rightarrow>
          if c = CHR ''-'' then (True, cs)
          else if c = CHR ''+'' then (False, cs)
          else (False, s))"

text \<open>What may follow the digits of a numeric string: nothing, or \<open>E\<close>, an optional sign and at
  least one digit.\<close>

definition parse_exponent :: "string \<Rightarrow> int option" where
  "parse_exponent s =
     (case s of
        [] \<Rightarrow> Some 0
      | c # cs \<Rightarrow>
          if c = CHR ''e'' then
            (let (negative, ds) = split_sign cs in
             if ds \<noteq> [] \<and> list_all isdigit ds
             then Some (if negative then - int (int_of_digits ds) else int (int_of_digits ds))
             else None)
          else None)"

text \<open>A number with at least one digit: an integer part, an optional fractional part, an
  optional exponent.\<close>

definition parse_number :: "bool \<Rightarrow> string \<Rightarrow> decimal option" where
  "parse_number sg s =
     (let intpart = takeWhile isdigit s;
          r1 = dropWhile isdigit s;
          has_frac = (r1 \<noteq> [] \<and> hd r1 = CHR ''.'');
          fracpart = (if has_frac then takeWhile isdigit (tl r1) else []);
          r2 = (if has_frac then dropWhile isdigit (tl r1) else r1)
      in if intpart = [] \<and> fracpart = [] then None
         else case parse_exponent r2 of
                None \<Rightarrow> None
              | Some e \<Rightarrow>
                  Some (Finite sg (int_of_digits (intpart @ fracpart)) (e - int (length fracpart))))"

text \<open>\<open>Inf\<close>, \<open>Infinity\<close>, \<open>NaN\<close> and \<open>sNaN\<close> with an optional payload of digits.\<close>

definition parse_special :: "bool \<Rightarrow> string \<Rightarrow> decimal option" where
  "parse_special sg s =
     (if s = ''inf'' \<or> s = ''infinity'' then Some (Infinity sg)
      else if prefix ''nan'' s \<and> list_all isdigit (drop 3 s)
        then Some (NaN sg False (int_of_digits (drop 3 s)))
      else if prefix ''snan'' s \<and> list_all isdigit (drop 4 s)
        then Some (NaN sg True (int_of_digits (drop 4 s)))
      else None)"

text \<open>\<open>Decimal(v)\<close> for a string: surrounding whitespace and all underscores are dropped, the
  syntax is case-insensitive; \<open>None\<close> stands for \<open>InvalidOperation\<close>.\<close>

definition Decimal :: "string \<Rightarrow> decimal option" where
  "Decimal v =
     (let (sg, s) = split_sign (lower (filter (\<lambda>c. c \<noteq> CHR ''_'') (strip v))) in
      case parse_number sg s of
        Some d \<Rightarrow> Some d
      | None \<Rightarrow> parse_special sg s)"

text \<open>The number of decimal digits of a coefficient.\<close>

fun ndigits :: "nat \<Rightarrow> nat" where
  "ndigits n = (if n < 10 then 1 else Suc (ndigits (n div 10)))"

declare ndigits.simps [simp del]

definition prec :: int where "prec = 28"
definition Emax :: int where "Emax = 999999"
definition Emin :: int where "Emin = - 999999"
definition Etiny :: int where "Etiny = Emin - prec + 1"
definition Etop :: int where "Etop = Emax - prec + 1"

text \<open>\<open>Decimal._fix\<close> on a finite number: the result rounded to the context (to at most 28
  digits, half-even, and into the exponent range); \<open>None\<close> stands for \<open>Overflow\<close>.\<close>

definition fix_finite :: "bool \<Rightarrow> nat \<Rightarrow> int \<Rightarrow> decimal option" where
  "fix_finite sg c e =
     (if c = 0 then Some (Finite sg 0 (min (max e Etiny) Emax))
      else
        let exp_min0 = int (ndigits c) + e - prec in
        if exp_min0 > Etop then None
        else
          let exp_min = max exp_min0 Etiny in
          if e < exp_min then
            (let digits = int (ndigits c) + e - exp_min;
                 c1 = (if digits < 0 then 1 else c);
                 e1 = (if digits < 0 then exp_min - 1 else e);
                 k = nat (exp_min - e1);
                 q = c1 div 10 ^ k;
                 r = c1 mod 10 ^ k;
                 half = 5 * 10 ^ (k - 1);
                 changed = (r > half \<or> (r = half \<and> odd q));
                 carry = (changed \<and> int (ndigits (q + 1)) > prec);
                 coeff = (if carry then (q + 1) div 10 else if changed then q + 1 else q);
                 exp_min' = (if carry then exp_min + 1 else exp_min)
             in if exp_min' > Etop then None else Some (Finite sg coeff exp_min'))
          else Some (Finite sg c e))"

text \<open>Unary minus, \<open>-d\<close>: a signalling NaN raises \<open>InvalidOperation\<close> (\<open>None\<close>), a quiet NaN is
  returned with its payload cut to the precision, zero becomes positive zero, and the result
  is rounded to the context.\<close>

fun neg :: "decimal \<Rightarrow> decimal option" where
  "neg (NaN sg signalling payload) =
     (if signalling then None else Some (NaN sg False (payload mod 10 ^ 28)))"
| "neg (Infinity sg) = Some (Infinity (\<not> sg))"
| "neg (Finite sg c e) = (if c = 0 then fix_finite False 0 e else fix_finite (\<not> sg) c e)"

text \<open>\<open>d <= 0\<close>: an ordering comparison with a NaN raises \<open>InvalidOperation\<close> (\<open>None\<close>).\<close>

fun le_zero :: "decimal \<Rightarrow> bool option" where
  "le_zero (NaN sg signalling payload) = None"
| "le_zero (Infinity sg) = Some sg"
| "le_zero (Finite sg c e) = Some (sg \<or> c = 0)"

text \<open>\<open>a == b\<close> on decimals: equality of the numeric values; a NaN equals nothing.\<close>

fun dec_eq :: "decimal \<Rightarrow> decimal \<Rightarrow> bool" where
  "dec_eq (Finite s1 c1 e1) (Finite s2 c2 e2) =
     ((c1 = 0 \<and> c2 = 0) \<or>
      (s1 = s2 \<and> c1 * 10 ^ nat (e1 - min e1 e2) = c2 * 10 ^ nat (e2 - min e1 e2)))"
| "dec_eq (Infinity s1) (Infinity s2) = (s1 = s2)"
| "dec_eq a b = False"

section \<open>datetime.strptime\<close>

text \<open>
  A \<open>datetime\<close>, and \<open>datetime.strptime(data_string, format)\<close> for the directives the
  program uses. As in Python, the format is turned into a regular expression (a directive
  becomes its alternatives in their order, a run of whitespace \<open>\s+\<close>, any other character
  itself, all case-insensitive), the expression is matched at the start of the string as a
  backtracking matcher does (the first match in the order of priority), and the match must
  use the whole string.
\<close>

record datetime =
  year :: nat
  month :: nat
  day :: nat
  hour :: nat
  minute :: nat
  second :: nat

datatype directive = Lit char | Whitespace | Dir_Y | Dir_m | Dir_d | Dir_B | Dir_b

definition directive_of :: "char \<Rightarrow> directive option" where
  "directive_of c =
     map_of [(CHR ''Y'', Dir_Y), (CHR ''m'', Dir_m), (CHR ''d'', Dir_d),
             (CHR ''B'', Dir_B), (CHR ''b'', Dir_b)] c"

text \<open>The format as a list of directives; the flag says that the previous character was
  whitespace (one \<open>\s+\<close> stands for a whole run). \<open>None\<close>: a directive the model does not
  know, or a \<open>%\<close> at the end.\<close>

fun compile_format :: "bool \<Rightarrow> string \<Rightarrow> directive list option" where
  "compile_format ws [] = Some []"
| "compile_format ws [c] =
     (if c = CHR ''%'' then None
      else if isspace c then (if ws then Some [] else Some [Whitespace])
      else Some [Lit c])"
| "compile_format ws (c # d # cs) =
     (if c = CHR ''%'' then
        (case directive_of d of
           None \<Rightarrow> None
         | Some dir \<Rightarrow> map_option ((#) dir) (compile_format False cs))
      else if isspace c then
        (if ws then compile_format True (d # cs)
         else map_option ((#) Whitespace) (compile_format True (d # cs)))
      else map_option ((#) (Lit c)) (compile_format False (d # cs)))"

text \<open>One alternative of a directive's expression is a list of character classes.\<close>

fun match_classes :: "string list \<Rightarrow> string \<Rightarrow> (string \<times> string) option" where
  "match_classes [] s = Some ([], s)"
| "match_classes (cl # cls) [] = None"
| "match_classes (cl # cls) (c # cs) =
     (if List.member cl c
      then map_option (\<lambda>(m, r). (c # m, r)) (match_classes cls cs)
      else None)"

text \<open>The matches of the alternatives, in their order: the value read (\<open>int\<close> of the matched
  text, which skips a leading blank) and the rest of the string.\<close>

definition match_alternatives :: "string list list \<Rightarrow> string \<Rightarrow> (nat \<times> string) list" where
  "match_alternatives alts s =
     List.map_filter
       (\<lambda>alt. map_option (\<lambda>(m, r). (int_of_digits (filter isdigit m), r)) (match_classes alt s))
       alts"

text \<open>\<open>%Y\<close> is \<open>\d\d\d\d\<close>; \<open>%m\<close> is \<open>1[0-2]|0[1-9]|[1-9]\<close>; \<open>%d\<close> is
  \<open>3[0-1]|[1-2]\d|0[1-9]|[1-9]| [1-9]\<close>.\<close>

definition regex_Y :: "string list list" where
  "regex_Y = [[''0123456789'', ''0123456789'', ''0123456789'', ''0123456789'']]"

definition regex_m :: "string list list" where
  "regex_m = [[''1'', ''012''], [''0'', ''123456789''], [''123456789'']]"

definition regex_d :: "string list list" where
  "regex_d = [[''3'', ''01''], [''12'', ''0123456789''], [''0'', ''123456789''], [''123456789''],
              ['' '', ''123456789'']]"

text \<open>The month names of \<open>%B\<close> and \<open>%b\<close> in the order of their alternatives (longest first),
  each with the number of its month.\<close>

definition regex_B :: "(string \<times> nat) list" where
  "regex_B = [(''september'', 9), (''february'', 2), (''november'', 11), (''december'', 12),
              (''january'', 1), (''october'', 10), (''august'', 8), (''march'', 3), (''april'', 4),
              (''june'', 6), (''july'', 7), (''may'', 5)]"

definition regex_b :: "(string \<times> nat) list" where
  "regex_b = [(''jan'', 1), (''feb'', 2), (''mar'', 3), (''apr'', 4), (''may'', 5), (''jun'', 6),
              (''jul'', 7), (''aug'', 8), (''sep'', 9), (''oct'', 10), (''nov'', 11), (''dec'', 12)]"

definition match_names :: "(string \<times> nat) list \<Rightarrow> string \<Rightarrow> (nat \<times> string) list" where
  "match_names names s =
     List.map_filter
       (\<lambda>(name, n). if prefix name (lower s) then Some (n, drop (length name) s) else None)
       names"

text \<open>\<open>\s+\<close> is greedy: the longest run of whitespace first, then the shorter ones.\<close>

definition match_whitespace :: "string \<Rightarrow> string list" where
  "match_whitespace s = map (\<lambda>i. drop i s) (rev [1 ..< Suc (length (takeWhile isspace s))])"

type_synonym date_fields = "nat option \<times> nat option \<times> nat option"

fun match_directive :: "directive \<Rightarrow> date_fields \<Rightarrow> string \<Rightarrow> (date_fields \<times> string) list" where
  "match_directive (Lit c) f s =
     (case s of
        [] \<Rightarrow> []
      | x # xs \<Rightarrow> if lower_char x = lower_char c then [(f, xs)] else [])"
| "match_directive Whitespace f s = map (\<lambda>r. (f, r)) (match_whitespace s)"
| "match_directive Dir_Y (y, m, d) s = map (\<lambda>(v, r). ((Some v, m, d), r)) (match_alternatives regex_Y s)"
| "match_directive Dir_m (y, m, d) s = map (\<lambda>(v, r). ((y, Some v, d), r)) (match_alternatives regex_m s)"
| "match_directive Dir_d (y, m, d) s = map (\<lambda>(v, r). ((y, m, Some v), r)) (match_alternatives regex_d s)"
| "match_directive Dir_B (y, m, d) s = map (\<lambda>(v, r). ((y, Some v, d), r)) (match_names regex_B s)"
| "match_directive Dir_b (y, m, d) s = map (\<lambda>(v, r). ((y, Some v, d), r)) (match_names regex_b s)"

text \<open>All matches of a compiled format at the start of a string, in the order in which a
  backtracking matcher finds them.\<close>

fun match_format :: "directive list \<Rightarrow> date_fields \<Rightarrow> string \<Rightarrow> (date_fields \<times> string) list" where
  "match_format [] f s = [(f, s)]"
| "match_format (d # ds) f s =
     concat (map (\<lambda>fr. match_format ds (fst fr) (snd fr)) (match_directive d f s))"

definition is_leap :: "nat \<Rightarrow> bool" where
  "is_leap y = (y mod 4 = 0 \<and> (y mod 100 \<noteq> 0 \<or> y mod 400 = 0))"

definition days_in_month :: "nat \<Rightarrow> nat \<Rightarrow> nat" where
  "days_in_month y m =
     (if m = 2 then (if is_leap y then 29 else 28)
      else if m = 4 \<or> m = 6 \<or> m = 9 \<or> m = 11 then 30
      else 31)"

text \<open>\<open>datetime.strptime\<close>; \<open>None\<close> stands for \<open>ValueError\<close>: the string does not match the
  format, unconverted data remains after the match, or the fields are not a date (year 0, a
  day past the end of the month).\<close>

definition strptime :: "string \<Rightarrow> string \<Rightarrow> datetime option" where
  "strptime data_string format =
     (case compile_format False format of
        None \<Rightarrow> None
      | Some ds \<Rightarrow>
          (case match_format ds (None, None, None) data_string of
             [] \<Rightarrow> None
           | ((y, m, d), rest) # others \<Rightarrow>
               if rest \<noteq> [] then None
               else
                 let yy = (case y of None \<Rightarrow> 1900 | Some v \<Rightarrow> v);
                     mm = (case m of None \<Rightarrow> 1 | Some v \<Rightarrow> v);
                     dd = (case d of None \<Rightarrow> 1 | Some v \<Rightarrow> v)
                 in if yy < 1 \<or> dd > days_in_month yy mm then None
                    else Some \<lparr>year = yy, month = mm, day = dd, hour = 0, minute = 0, second = 0\<rparr>))"

section \<open>TableParser: dates, amounts and booleans\<close>

text \<open>
  The arguments that \<open>_parse_date\<close> and \<open>_parse_amount\<close> tell apart: \<open>None\<close>, a string, and
  the values they pass through (a \<open>datetime\<close>; an \<open>int\<close> or a \<open>Decimal\<close>). Any other Python
  value reaches them as the string \<open>str(value)\<close>; a \<open>float\<close> is not modelled.
\<close>

datatype date_arg = DateNone | DateStr string | DateDatetime datetime

datatype amount_arg = AmountNone | AmountStr string | AmountInt int | AmountDecimal decimal

definition date_formats :: "string list" where
  "date_formats =
     [''%Y-%m-%d'', ''%m/%d/%Y'', ''%d/%m/%Y'', ''%Y/%m/%d'', ''%m-%d-%Y'', ''%d-%m-%Y'',
      ''%B %d, %Y'', ''%b %d, %Y'', ''%Y%m%d'']"

text \<open>The loop over the formats: the first format that parses returns.\<close>

fun try_formats :: "string \<Rightarrow> string list \<Rightarrow> datetime option" where
  "try_formats date_str [] = None"
| "try_formats date_str (fmt # fmts) =
     (case strptime date_str fmt of
        Some d \<Rightarrow> Some d
      | None \<Rightarrow> try_formats date_str fmts)"

fun parse_date :: "date_arg \<Rightarrow> datetime option" where
  "parse_date DateNone = None"
| "parse_date (DateDatetime d) = Some d"
| "parse_date (DateStr v) =
     (let date_str = strip v in
      if date_str = [] then None else try_formats date_str date_formats)"

text \<open>\<open>re.sub(r'[$,()]', '', s)\<close>.\<close>

definition remove_symbols :: "string \<Rightarrow> string" where
  "remove_symbols s = filter (\<lambda>c. \<not> List.member ''$,()'' c) s"

text \<open>The string branch of \<open>_parse_amount\<close>. Both \<open>Decimal(amount_str)\<close> and the negation stand
  in the \<open>try\<close> block, so an exception of either gives \<open>None\<close>.\<close>

definition parse_amount_str :: "string \<Rightarrow> decimal option" where
  "parse_amount_str v =
     (let amount_str = strip v in
      if amount_str = [] then None
      else
        let is_negative = (startswith amount_str ''('' \<and> endswith amount_str '')'');
            amount_str = remove_symbols amount_str;
            is_negative = (if startswith amount_str ''-'' then True else is_negative);
            amount_str = (if startswith amount_str ''-'' then drop 1 amount_str else amount_str)
        in case Decimal amount_str of
             None \<Rightarrow> None
           | Some amount \<Rightarrow> if is_negative then neg amount else Some amount)"

fun parse_amount :: "amount_arg \<Rightarrow> decimal option" where
  "parse_amount AmountNone = None"
| "parse_amount (AmountInt n) = Some (Finite (n < 0) (nat \<bar>n\<bar>) 0)"
| "parse_amount (AmountDecimal d) = Some d"
| "parse_amount (AmountStr v) = parse_amount_str v"

text \<open>\<open>_parse_boolean\<close> on a cell.\<close>

definition parse_boolean :: "cell \<Rightarrow> bool" where
  "parse_boolean v =
     (case v of
        None \<Rightarrow> False
      | Some s \<Rightarrow> List.member [''yes'', ''true'', ''1'', ''y'', ''t''] (lower (strip s)))"

definition classify_adjustment_category :: "string \<Rightarrow> string" where
  "classify_adjustment_category adjustment_type =
     (if contains ''recallable'' adjustment_type \<or> contains ''recalled'' adjustment_type
        then ''recallable_distribution''
      else if contains ''capital call'' adjustment_type then ''capital_call_adjustment''
      else if contains ''contribution'' adjustment_type then ''contribution_adjustment''
      else if contains ''fee'' adjustment_type then ''fee_adjustment''
      else if contains ''expense'' adjustment_type then ''expense_adjustment''
      else ''other'')"

section \<open>TableParser: parsing the rows of a table\<close>

text \<open>
  The values that the parsed records hold, and a record as the dictionary the program builds:
  its keys with their values, in the order of insertion.
\<close>

datatype pyval =
  PyNone | PyStr string | PyBool bool | PyInt int | PyDatetime datetime | PyDecimal decimal

type_synonym entry = "(string \<times> pyval) list"

text \<open>\<open>entry.get(key)\<close>.\<close>

definition dict_get :: "entry \<Rightarrow> string \<Rightarrow> pyval" where
  "dict_get e k = (case map_of e k of None \<Rightarrow> PyNone | Some v \<Rightarrow> v)"

text \<open>The truth value of a Python value.\<close>

fun truthy :: "pyval \<Rightarrow> bool" where
  "truthy PyNone = False"
| "truthy (PyStr s) = (s \<noteq> [])"
| "truthy (PyBool b) = b"
| "truthy (PyInt n) = (n \<noteq> 0)"
| "truthy (PyDatetime d) = True"
| "truthy (PyDecimal (Finite sg c e)) = (c \<noteq> 0)"
| "truthy (PyDecimal d) = True"

text \<open>The first header that contains one of the keywords.\<close>

fun find_column_index_from :: "nat \<Rightarrow> string list \<Rightarrow> string list \<Rightarrow> nat option" where
  "find_column_index_from idx [] keywords = None"
| "find_column_index_from idx (header # hs) keywords =
     (if list_ex (\<lambda>keyword. contains keyword header) keywords then Some idx
      else find_column_index_from (Suc idx) hs keywords)"

definition find_column_index :: "string list \<Rightarrow> string list \<Rightarrow> nat option" where
  "find_column_index hs keywords = find_column_index_from 0 hs keywords"

text \<open>\<open>[str(h).strip().lower() if h else '' for h in table_info['headers']]\<close>.\<close>

definition normalized_headers :: "table_info \<Rightarrow> string list" where
  "normalized_headers t =
     map (\<lambda>h. case h of None \<Rightarrow> [] | Some s \<Rightarrow> if s = [] then [] else lower (strip s)) (headers t)"

text \<open>\<open>row[i]\<close>: \<open>None\<close> stands for the \<open>IndexError\<close> past the end of the row.\<close>

definition row_item :: "cell list \<Rightarrow> nat \<Rightarrow> cell option" where
  "row_item row i = (if i < length row then Some (row ! i) else None)"

text \<open>\<open>row[idx] if idx is not None else None\<close>.\<close>

definition cell_at :: "cell list \<Rightarrow> nat option \<Rightarrow> cell option" where
  "cell_at row idx = (case idx of None \<Rightarrow> Some None | Some i \<Rightarrow> row_item row i)"

text \<open>\<open>str(row[idx]).strip() if idx is not None and row[idx] else dflt\<close>, for a default
  \<open>dflt\<close>.\<close>

definition text_at :: "cell list \<Rightarrow> nat option \<Rightarrow> string \<Rightarrow> string option" where
  "text_at row idx dflt =
     (case idx of
        None \<Rightarrow> Some dflt
      | Some i \<Rightarrow>
          (case row_item row i of
             None \<Rightarrow> None
           | Some None \<Rightarrow> Some dflt
           | Some (Some s) \<Rightarrow> Some (if s = [] then dflt else strip s)))"

definition date_of_cell :: "cell \<Rightarrow> date_arg" where
  "date_of_cell c = (case c of None \<Rightarrow> DateNone | Some s \<Rightarrow> DateStr s)"

definition amount_of_cell :: "cell \<Rightarrow> amount_arg" where
  "amount_of_cell c = (case c of None \<Rightarrow> AmountNone | Some s \<Rightarrow> AmountStr s)"

text \<open>\<open>cell is None or str(cell).strip() == ''\<close>.\<close>

definition blank_cell :: "cell \<Rightarrow> bool" where
  "blank_cell c = (case c of None \<Rightarrow> True | Some s \<Rightarrow> strip s = [])"

text \<open>
  One pass of the row loop of \<open>parse_capital_call_table\<close>: \<open>None\<close> when the row is skipped
  (it is empty or blank, reading a cell raises, or the date or the amount does not parse),
  otherwise the record that is appended.
\<close>

definition parse_capital_call_row ::
  "nat option \<Rightarrow> nat option \<Rightarrow> nat option \<Rightarrow> nat option \<Rightarrow> cell list \<Rightarrow> entry option" where
  "parse_capital_call_row date_idx amount_idx call_type_idx description_idx row =
     (if row = [] \<or> list_all blank_cell row then None
      else
        case cell_at row date_idx of None \<Rightarrow> None | Some date_cell \<Rightarrow>
        case text_at row call_type_idx ''Standard Call'' of None \<Rightarrow> None | Some call_type \<Rightarrow>
        case cell_at row amount_idx of None \<Rightarrow> None | Some amount_cell \<Rightarrow>
        case text_at row description_idx [] of None \<Rightarrow> None | Some description \<Rightarrow>
        case parse_date (date_of_cell date_cell) of None \<Rightarrow> None | Some call_date \<Rightarrow>
        case parse_amount (amount_of_cell amount_cell) of None \<Rightarrow> None | Some amount \<Rightarrow>
          Some [(''call_date'', PyDatetime call_date), (''call_type'', PyStr call_type),
                (''amount'', PyDecimal amount), (''description'', PyStr description)])"

definition parse_capital_call_table :: "table_info \<Rightarrow> entry list" where
  "parse_capital_call_table t =
     (let hs = normalized_headers t;
          date_idx = find_column_index hs [''date''];
          amount_idx = find_column_index hs [''amount''];
          call_type_idx = find_column_index hs [''call number'', ''type'', ''call''];
          description_idx = find_column_index hs [''description'', ''desc'', ''notes'']
      in List.map_filter
           (parse_capital_call_row date_idx amount_idx call_type_idx description_idx) (rows t))"

definition parse_distribution_row ::
  "nat option \<Rightarrow> nat option \<Rightarrow> nat option \<Rightarrow> nat option \<Rightarrow> nat option \<Rightarrow> cell list \<Rightarrow> entry option"
  where
  "parse_distribution_row date_idx amount_idx type_idx recallable_idx description_idx row =
     (if row = [] \<or> list_all blank_cell row then None
      else
        case cell_at row date_idx of None \<Rightarrow> None | Some date_cell \<Rightarrow>
        case text_at row type_idx ''Distribution'' of None \<Rightarrow> None | Some distribution_type \<Rightarrow>
        case cell_at row amount_idx of None \<Rightarrow> None | Some amount_cell \<Rightarrow>
        case (case recallable_idx of None \<Rightarrow> Some (Some ''No'') | Some i \<Rightarrow> row_item row i) of
          None \<Rightarrow> None | Some recallable_cell \<Rightarrow>
        case text_at row description_idx [] of None \<Rightarrow> None | Some description \<Rightarrow>
        case parse_date (date_of_cell date_cell) of None \<Rightarrow> None | Some distribution_date \<Rightarrow>
        case parse_amount (amount_of_cell amount_cell) of None \<Rightarrow> None | Some amount \<Rightarrow>
          Some [(''distribution_date'', PyDatetime distribution_date),
                (''distribution_type'', PyStr distribution_type),
                (''amount'', PyDecimal amount),
                (''is_recallable'', PyBool (parse_boolean recallable_cell)),
                (''description'', PyStr description)])"

definition parse_distribution_table :: "table_info \<Rightarrow> entry list" where
  "parse_distribution_table t =
     (let hs = normalized_headers t;
          date_idx = find_column_index hs [''date''];
          amount_idx = find_column_index hs [''amount''];
          type_idx = find_column_index hs [''type'', ''distribution type''];
          recallable_idx = find_column_index hs [''recallable'', ''recall''];
          description_idx = find_column_index hs [''description'', ''desc'', ''notes'']
      in List.map_filter
           (parse_distribution_row date_idx amount_idx type_idx recallable_idx description_idx)
           (rows t))"

definition parse_adjustment_row ::
  "nat option \<Rightarrow> nat option \<Rightarrow> nat option \<Rightarrow> nat option \<Rightarrow> cell list \<Rightarrow> entry option" where
  "parse_adjustment_row date_idx amount_idx type_idx description_idx row =
     (if row = [] \<or> list_all blank_cell row then None
      else
        case text_at row type_idx [] of None \<Rightarrow> None | Some type_text \<Rightarrow>
        let adj_type = lower type_text;
            category = classify_adjustment_category adj_type;
            is_contribution_adjustment =
              (contains ''capital call'' adj_type \<or> contains ''contribution'' adj_type)
        in
        case cell_at row date_idx of None \<Rightarrow> None | Some date_cell \<Rightarrow>
        case text_at row type_idx ''Adjustment'' of None \<Rightarrow> None | Some adjustment_type \<Rightarrow>
        case cell_at row amount_idx of None \<Rightarrow> None | Some amount_cell \<Rightarrow>
        case text_at row description_idx [] of None \<Rightarrow> None | Some description \<Rightarrow>
        case parse_date (date_of_cell date_cell) of None \<Rightarrow> None | Some adjustment_date \<Rightarrow>
        case parse_amount (amount_of_cell amount_cell) of None \<Rightarrow> None | Some amount \<Rightarrow>
          Some [(''adjustment_date'', PyDatetime adjustment_date),
                (''adjustment_type'', PyStr adjustment_type),
                (''category'', PyStr category),
                (''amount'', PyDecimal amount),
                (''is_contribution_adjustment'', PyBool is_contribution_adjustment),
                (''description'', PyStr description)])"

definition parse_adjustment_table :: "table_info \<Rightarrow> entry list" where
  "parse_adjustment_table t =
     (let hs = normalized_headers t;
          date_idx = find_column_index hs [''date''];
          amount_idx = find_column_index hs [''amount''];
          type_idx = find_column_index hs [''type'', ''adjustment type''];
          description_idx = find_column_index hs [''description'', ''desc'', ''notes'']
      in List.map_filter
           (parse_adjustment_row date_idx amount_idx type_idx description_idx) (rows t))"

section \<open>TableParser: validation\<close>

text \<open>\<open>value <= 0\<close> on the values of a record; \<open>None\<close> stands for the exception (a
  \<open>TypeError\<close> for a value that is not a number, \<open>InvalidOperation\<close> for a NaN).\<close>

fun pyval_le_zero :: "pyval \<Rightarrow> bool option" where
  "pyval_le_zero (PyDecimal d) = le_zero d"
| "pyval_le_zero (PyBool b) = Some (\<not> b)"
| "pyval_le_zero (PyInt n) = Some (n \<le> 0)"
| "pyval_le_zero v = None"

text \<open>
  One pass of the loop of \<open>validate_and_clean_data\<close>. The entry is dropped (by \<open>continue\<close>, or
  by the handler of an exception), or it is appended to the cleaned data, with or without a
  warning in the log.
\<close>

datatype validation = Dropped | Kept_with_warning | Kept

definition check_amount_sign :: "entry \<Rightarrow> validation" where
  "check_amount_sign entry =
     (case pyval_le_zero (dict_get entry ''amount'') of
        None \<Rightarrow> Dropped
      | Some non_positive \<Rightarrow> if non_positive then Kept_with_warning else Kept)"

definition validate_entry :: "string \<Rightarrow> entry \<Rightarrow> validation" where
  "validate_entry table_type entry =
     (if table_type = ''capital_calls'' then
        (if \<not> truthy (dict_get entry ''call_date'') \<or> dict_get entry ''amount'' = PyNone
         then Dropped else check_amount_sign entry)
      else if table_type = ''distributions'' then
        (if \<not> truthy (dict_get entry ''distribution_date'') \<or> dict_get entry ''amount'' = PyNone
         then Dropped else check_amount_sign entry)
      else if table_type = ''adjustments'' then
        (if \<not> truthy (dict_get entry ''adjustment_date'') \<or> dict_get entry ''amount'' = PyNone
         then Dropped else Kept)
      else Kept)"

definition validate_and_clean_data :: "entry list \<Rightarrow> string \<Rightarrow> entry list" where
  "validate_and_clean_data data table_type =
     filter (\<lambda>entry. validate_entry table_type entry \<noteq> Dropped) data"

text \<open>The entries for which \<open>validate_and_clean_data\<close> logs a warning of a non-positive
  amount.\<close>

definition validation_warnings :: "entry list \<Rightarrow> string \<Rightarrow> entry list" where
  "validation_warnings data table_type =
     filter (\<lambda>entry. validate_entry table_type entry = Kept_with_warning) data"

section \<open>The collaborators: PDF file, database session, language model, embeddings\<close>

text \<open>
  An exception with its message (\<open>str(e)\<close>). Every call that leaves the program
  (\<open>pdfplumber.open\<close> with the reading of the pages, \<open>db.commit\<close>, \<open>db.execute\<close>, a query,
  the embedding request) may raise: the environment holds a schedule that says, for the
  \<open>n\<close>-th such call of a run, whether it raises and what. The state of the world counts the
  calls.
\<close>

datatype exn = Exception string

fun message :: "exn \<Rightarrow> string" where
  "message (Exception m) = m"

record Settings =
  CHUNK_SIZE :: int
  CHUNK_OVERLAP :: int

text \<open>A page of the PDF file: what \<open>extract_tables()\<close> and \<open>extract_text()\<close> return for it.\<close>

record pdf_page =
  tables :: "cell list list list"
  extracted_text :: "string option"

text \<open>
  An item of the decoded reply of the language model, reduced to what the conversion reads:
  the value under \<open>date\<close> as \<open>_parse_date\<close> sees it, \<open>str\<close> of the value under \<open>amount\<close>,
  and the values under the type key and \<open>description\<close> (\<open>None\<close> for a key that is absent).
\<close>

record llm_item =
  item_date :: date_arg
  item_amount :: "string option"
  item_type :: "pyval option"
  item_description :: "pyval option"

text \<open>A row that the similarity query returns: id, document id, fund id, content, metadata
  and the similarity score (\<open>None\<close> for SQL \<open>NULL\<close>).\<close>

record search_row =
  row_id :: nat
  row_document_id :: pyval
  row_fund_id :: pyval
  row_content :: string
  row_metadata :: entry
  row_score :: "rat option"

record env =
  settings :: Settings
  pdf :: "pdf_page list"
  fault :: "nat \<Rightarrow> exn option"
  llm_client :: bool
  llm_reply :: "string \<Rightarrow> (llm_item list \<times> llm_item list) option"
  embed_query :: "string \<Rightarrow> rat list"
  search_rows :: "(string \<times> pyval) list \<Rightarrow> rat list \<Rightarrow> int \<Rightarrow> search_row list"

text \<open>
  The rows of the database: a transaction row (its table, the fund and the column values) and
  a row of \<open>document_embeddings\<close> (id, document id, fund id, content, embedding, metadata).
\<close>

datatype db_row =
    TransactionRow string int "pyval list"
  | EmbeddingRow nat pyval pyval string "rat list" entry

record document =
  parsing_status :: string
  error_message :: "string option"

text \<open>
  The world of a run: the number of outside calls made so far, the number of calls of
  \<open>extract_data_from_text\<close>, the rows added to the database session and not yet committed,
  the committed rows, the document rows by id, and the next id of the embeddings table.
\<close>

record world =
  clock :: nat
  llm_calls :: nat
  session :: "db_row list"
  database :: "db_row list"
  documents :: "int \<Rightarrow> document option"
  next_id :: nat

definition external_call :: "env \<Rightarrow> world \<Rightarrow> exn option \<times> world" where
  "external_call env w = (fault env (clock w), w\<lparr>clock := Suc (clock w)\<rparr>)"

text \<open>\<open>db.commit()\<close>: the rows of the session become durable, or the call raises.\<close>

definition db_commit :: "env \<Rightarrow> world \<Rightarrow> exn option \<times> world" where
  "db_commit env w =
     (case external_call env w of
        (Some e, w') \<Rightarrow> (Some e, w')
      | (None, w') \<Rightarrow> (None, w'\<lparr>database := database w' @ session w', session := []\<rparr>))"

text \<open>\<open>db.rollback()\<close>.\<close>

definition db_rollback :: "world \<Rightarrow> world" where
  "db_rollback w = w\<lparr>session := []\<rparr>"

section \<open>TableParser: reading the PDF\<close>

text \<open>\<open>enumerate(xs, start=1)\<close>.\<close>

definition enumerate1 :: "'a list \<Rightarrow> (nat \<times> 'a) list" where
  "enumerate1 xs = zip [1 ..< Suc (length xs)] xs"

text \<open>The tables of one page: a table with fewer than two rows is skipped.\<close>

definition page_table_infos :: "nat \<Rightarrow> pdf_page \<Rightarrow> table_info list" where
  "page_table_infos page_num pg =
     List.map_filter
       (\<lambda>(table_num, table_data).
          if length table_data < 2 then None
          else Some \<lparr>page = page_num, table_number = table_num, raw_data = table_data,
                     headers = hd table_data, rows = tl table_data\<rparr>)
       (enumerate1 (tables pg))"

text \<open>The tables of all pages, and \<open>extract_tables_from_pdf\<close>: an exception while the file is
  read is logged and raised again.\<close>

definition tables_of_pdf :: "pdf_page list \<Rightarrow> table_info list" where
  "tables_of_pdf pages =
     concat (map (\<lambda>(page_num, pg). page_table_infos page_num pg) (enumerate1 pages))"

definition extract_tables_from_pdf :: "env \<Rightarrow> world \<Rightarrow> (exn + table_info list) \<times> world" where
  "extract_tables_from_pdf env w =
     (case external_call env w of
        (Some e, w') \<Rightarrow> (Inl e, w')
      | (None, w') \<Rightarrow> (Inr (tables_of_pdf (pdf env)), w'))"

section \<open>TableParser: the text-extraction fallback\<close>

definition date_value :: "datetime option \<Rightarrow> pyval" where
  "date_value d = (case d of None \<Rightarrow> PyNone | Some v \<Rightarrow> PyDatetime v)"

text \<open>The conversion of one item of the reply; \<open>None\<close> when \<open>Decimal(str(amount))\<close> raises and
  the item is skipped.\<close>

definition convert_capital_call :: "llm_item \<Rightarrow> entry option" where
  "convert_capital_call cc =
     (case Decimal (case item_amount cc of None \<Rightarrow> ''0'' | Some a \<Rightarrow> a) of
        None \<Rightarrow> None
      | Some amount \<Rightarrow>
          Some [(''call_date'', date_value (parse_date (item_date cc))),
                (''call_type'', (case item_type cc of None \<Rightarrow> PyStr ''Standard Call'' | Some v \<Rightarrow> v)),
                (''amount'', PyDecimal amount),
                (''description'', (case item_description cc of None \<Rightarrow> PyStr [] | Some v \<Rightarrow> v))])"

definition convert_distribution :: "llm_item \<Rightarrow> entry option" where
  "convert_distribution item =
     (case Decimal (case item_amount item of None \<Rightarrow> ''0'' | Some a \<Rightarrow> a) of
        None \<Rightarrow> None
      | Some amount \<Rightarrow>
          Some [(''distribution_date'', date_value (parse_date (item_date item))),
                (''distribution_type'', (case item_type item of None \<Rightarrow> PyStr ''Distribution'' | Some v \<Rightarrow> v)),
                (''amount'', PyDecimal amount),
                (''is_recallable'', PyBool False),
                (''description'', (case item_description item of None \<Rightarrow> PyStr [] | Some v \<Rightarrow> v))])"

text \<open>The text of all pages, each followed by two newlines.\<close>

definition full_text :: "pdf_page list \<Rightarrow> string" where
  "full_text pages =
     concat (map (\<lambda>pg. case extracted_text pg of
                          None \<Rightarrow> []
                        | Some t \<Rightarrow> if t = [] then [] else t @ [CHR 0x0A, CHR 0x0A]) pages)"

text \<open>
  \<open>extract_data_from_text\<close>: the capital calls and the distributions that the language model
  finds in the first 8000 characters of the text. It never raises: without a client, without
  text, and on every exception (the file cannot be read, the request fails, the reply is not
  the JSON asked for) both lists are empty.
\<close>

definition extract_data_from_text :: "env \<Rightarrow> world \<Rightarrow> (entry list \<times> entry list) \<times> world" where
  "extract_data_from_text env w0 =
     (let w = w0\<lparr>llm_calls := Suc (llm_calls w0)\<rparr> in
      if \<not> llm_client env then (([], []), w)
      else
        case external_call env w of
          (Some e, w') \<Rightarrow> (([], []), w')
        | (None, w') \<Rightarrow>
            if strip (full_text (pdf env)) = [] then (([], []), w')
            else
              (case llm_reply env (take 8000 (full_text (pdf env))) of
                 None \<Rightarrow> (([], []), w')
               | Some (ccs, dists) \<Rightarrow>
                   ((List.map_filter convert_capital_call ccs,
                     List.map_filter convert_distribution dists), w')))"

section \<open>VectorStore\<close>

text \<open>\<open>_get_embedding\<close>: the text cut to 8000 characters and embedded; an exception of the
  embedding request is logged and raised again.\<close>

definition get_embedding :: "env \<Rightarrow> string \<Rightarrow> world \<Rightarrow> (exn + rat list) \<times> world" where
  "get_embedding env txt w =
     (case external_call env w of
        (Some e, w') \<Rightarrow> (Inl e, w')
      | (None, w') \<Rightarrow> (Inr (embed_query env (take 8000 txt)), w'))"

text \<open>The \<open>try\<close> block of \<open>add_document\<close>: embed the content, insert the row, commit, return
  the id of the row.\<close>

definition add_document_try :: "env \<Rightarrow> string \<Rightarrow> entry \<Rightarrow> world \<Rightarrow> (exn + nat) \<times> world" where
  "add_document_try env content metadata w =
     (case get_embedding env content w of
        (Inl e, w1) \<Rightarrow> (Inl e, w1)
      | (Inr embedding, w1) \<Rightarrow>
          (case external_call env w1 of
             (Some e, w2) \<Rightarrow> (Inl e, w2)
           | (None, w2) \<Rightarrow>
               let doc_id = next_id w2;
                   w3 = w2\<lparr>session := session w2 @
                             [EmbeddingRow doc_id (dict_get metadata ''document_id'')
                                (dict_get metadata ''fund_id'') content embedding metadata],
                           next_id := Suc doc_id\<rparr>
               in (case db_commit env w3 of
                     (Some e, w4) \<Rightarrow> (Inl e, w4)
                   | (None, w4) \<Rightarrow> (Inr doc_id, w4))))"

text \<open>\<open>add_document\<close>: on an exception the session is rolled back and the exception is raised
  again.\<close>

definition add_document :: "env \<Rightarrow> string \<Rightarrow> entry \<Rightarrow> world \<Rightarrow> (exn + nat) \<times> world" where
  "add_document env content metadata w =
     (case add_document_try env content metadata w of
        (Inl e, w') \<Rightarrow> (Inl e, db_rollback w')
      | (Inr doc_id, w') \<Rightarrow> (Inr doc_id, w'))"






section \<open>DocumentProcessor: text and chunks\<close>

text \<open>An entry of the text content (page number, text, number of pages) and a chunk (text,
  page, index on the page, number of characters).\<close>

record page_data =
  p_page :: nat
  p_text :: string
  total_pages :: nat

record chunk =
  c_text :: string
  c_page :: nat
  chunk_index :: nat
  char_count :: nat

text \<open>\<open>_extract_text_content\<close>: the pages that have text other than whitespace.\<close>

definition extract_text_content :: "env \<Rightarrow> world \<Rightarrow> (exn + page_data list) \<times> world" where
  "extract_text_content env w =
     (case external_call env w of
        (Some e, w') \<Rightarrow> (Inl e, w')
      | (None, w') \<Rightarrow>
          (Inr (List.map_filter
                  (\<lambda>(page_num, pg).
                     case extracted_text pg of
                       None \<Rightarrow> None
                     | Some t \<Rightarrow>
                         if t \<noteq> [] \<and> strip t \<noteq> []
                         then Some \<lparr>p_page = page_num, p_text = t, total_pages = length (pdf env)\<rparr>
                         else None)
                  (enumerate1 (pdf env))), w'))"

text \<open>
  \<open>re.split(r'(?<=[.!?])\s+', text)\<close>: the text is cut at every run of whitespace that follows
  a full stop, an exclamation mark or a question mark. The scan keeps whether the previous
  character is such a mark, whether it is inside a separating run, and the piece read so far
  (reversed).
\<close>

fun re_split :: "bool \<Rightarrow> bool \<Rightarrow> string \<Rightarrow> string \<Rightarrow> string list" where
  "re_split after_mark in_sep piece [] = [rev piece]"
| "re_split after_mark in_sep piece (c # cs) =
     (if isspace c \<and> in_sep then re_split False True piece cs
      else if isspace c \<and> after_mark then rev piece # re_split False True [] cs
      else re_split (List.member ''.!?'' c) False (c # piece) cs)"

definition split_into_sentences :: "string \<Rightarrow> string list" where
  "split_into_sentences txt =
     filter (\<lambda>s. s \<noteq> []) (map strip (re_split False False [] txt))"

text \<open>The loop that collects the overlap: the sentences of the closed chunk from the last one
  backwards, as long as they fit into the overlap budget.\<close>

fun overlap_loop :: "int \<Rightarrow> string list \<Rightarrow> string list \<Rightarrow> nat \<Rightarrow> string list \<times> nat" where
  "overlap_loop chunk_overlap [] overlap_sentences overlap_length =
     (overlap_sentences, overlap_length)"
| "overlap_loop chunk_overlap (sent # sents) overlap_sentences overlap_length =
     (if int (overlap_length + length sent) \<le> chunk_overlap
      then overlap_loop chunk_overlap sents (sent # overlap_sentences) (overlap_length + length sent)
      else (overlap_sentences, overlap_length))"

definition make_chunk :: "string list \<Rightarrow> nat \<Rightarrow> nat \<Rightarrow> chunk" where
  "make_chunk current_chunk page_num idx =
     \<lparr>c_text = join '' '' current_chunk, c_page = page_num, chunk_index = idx,
      char_count = length (join '' '' current_chunk)\<rparr>"

text \<open>The state of the loop over the sentences of a page.\<close>

record chunker =
  chunks :: "chunk list"
  current_chunk :: "string list"
  current_length :: nat
  current_index :: nat

text \<open>One pass of the loop over the sentences.\<close>

definition add_sentence :: "Settings \<Rightarrow> nat \<Rightarrow> chunker \<Rightarrow> string \<Rightarrow> chunker" where
  "add_sentence cfg page_num st sentence =
     (let st' =
        (if int (current_length st + length sentence) > CHUNK_SIZE cfg \<and> current_chunk st \<noteq> []
         then
           (let ov = overlap_loop (CHUNK_OVERLAP cfg) (rev (current_chunk st)) [] 0
            in \<lparr>chunks = chunks st @ [make_chunk (current_chunk st) page_num (current_index st)],
                current_chunk = fst ov,
                current_length = snd ov,
                current_index = current_index st + 1\<rparr>)
         else st)
      in st'\<lparr>current_chunk := current_chunk st' @ [sentence],
             current_length := current_length st' + length sentence\<rparr>)"

text \<open>The chunks of one page, appended to the chunks of the pages before.\<close>

definition chunk_page :: "Settings \<Rightarrow> chunk list \<Rightarrow> page_data \<Rightarrow> chunk list" where
  "chunk_page cfg cs pd =
     (let st = foldl (add_sentence cfg (p_page pd))
                 \<lparr>chunks = cs, current_chunk = [], current_length = 0, current_index = 0\<rparr>
                 (split_into_sentences (p_text pd))
      in if current_chunk st \<noteq> []
         then chunks st @ [make_chunk (current_chunk st) (p_page pd) (current_index st)]
         else chunks st)"

definition chunk_text :: "Settings \<Rightarrow> page_data list \<Rightarrow> chunk list" where
  "chunk_text cfg text_content = foldl (chunk_page cfg) [] text_content"

section \<open>The sentences of the chunks\<close>

text \<open>
  To state what the chunks of a page are made of, the loop over the sentences is written once
  more on lists of sentences: \<open>sentence_groups cfg cur ss\<close> are the groups of sentences that
  the loop turns into chunks when it holds the sentences \<open>cur\<close> in its current chunk and the
  sentences \<open>ss\<close> are still to come. \<open>chunk_page_groups\<close> below proves that the chunks of a
  page are these groups, each joined by blanks and numbered from 0.
\<close>

definition total_length :: "string list \<Rightarrow> nat" where
  "total_length ss = sum_list (map length ss)"

text \<open>The overlap that the loop keeps of a closed chunk.\<close>

definition overlap_sentences :: "int \<Rightarrow> string list \<Rightarrow> string list" where
  "overlap_sentences chunk_overlap cur = fst (overlap_loop chunk_overlap (rev cur) [] 0)"

fun sentence_groups :: "Settings \<Rightarrow> string list \<Rightarrow> string list \<Rightarrow> string list list" where
  "sentence_groups cfg cur [] = (if cur \<noteq> [] then [cur] else [])"
| "sentence_groups cfg cur (s # ss) =
     (if int (total_length cur + length s) > CHUNK_SIZE cfg \<and> cur \<noteq> []
      then cur # sentence_groups cfg (overlap_sentences (CHUNK_OVERLAP cfg) cur @ [s]) ss
      else sentence_groups cfg (cur @ [s]) ss)"

definition number_chunks :: "nat \<Rightarrow> nat \<Rightarrow> string list list \<Rightarrow> chunk list" where
  "number_chunks page_num start groups =
     map (\<lambda>(i, g). make_chunk g page_num i) (zip [start ..< start + length groups] groups)"

text \<open>A group of sentences is within the budget when its sentences total at most the chunk
  size, or it is a single sentence, or it is one sentence after sentences that fit into the
  overlap budget.\<close>

definition within_budget :: "Settings \<Rightarrow> string list \<Rightarrow> bool" where
  "within_budget cfg g =
     (int (total_length g) \<le> CHUNK_SIZE cfg \<or> length g = 1 \<or>
      (butlast g \<noteq> [] \<and> int (total_length (butlast g)) \<le> CHUNK_OVERLAP cfg))"

section \<open>DocumentProcessor: saving and status\<close>

text \<open>\<open>entry[key]\<close>: a \<open>KeyError\<close> for a key that is absent.\<close>

definition getitem :: "entry \<Rightarrow> string \<Rightarrow> exn + pyval" where
  "getitem e k =
     (case map_of e k of
        None \<Rightarrow> Inl (Exception ([CHR 0x27] @ k @ [CHR 0x27]))
      | Some v \<Rightarrow> Inr v)"

fun getitems :: "entry \<Rightarrow> string list \<Rightarrow> exn + pyval list" where
  "getitems e [] = Inr []"
| "getitems e (k # ks) =
     (case getitem e k of
        Inl x \<Rightarrow> Inl x
      | Inr v \<Rightarrow> (case getitems e ks of Inl x \<Rightarrow> Inl x | Inr vs \<Rightarrow> Inr (v # vs)))"

text \<open>The loop of a \<open>_save_...\<close> method: a row is built from every record and added to the
  session.\<close>

fun add_rows :: "string \<Rightarrow> string list \<Rightarrow> int \<Rightarrow> entry list \<Rightarrow> world \<Rightarrow> exn option \<times> world" where
  "add_rows table keys fund_id [] w = (None, w)"
| "add_rows table keys fund_id (e # es) w =
     (case getitems e keys of
        Inl x \<Rightarrow> (Some x, w)
      | Inr vs \<Rightarrow>
          add_rows table keys fund_id es (w\<lparr>session := session w @ [TransactionRow table fund_id vs]\<rparr>))"

definition save_rows ::
  "string \<Rightarrow> string list \<Rightarrow> env \<Rightarrow> entry list \<Rightarrow> int \<Rightarrow> world \<Rightarrow> exn option \<times> world" where
  "save_rows table keys env entries fund_id w =
     (case add_rows table keys fund_id entries w of
        (Some x, w') \<Rightarrow> (Some x, w')
      | (None, w') \<Rightarrow> db_commit env w')"

definition save_capital_calls :: "env \<Rightarrow> entry list \<Rightarrow> int \<Rightarrow> world \<Rightarrow> exn option \<times> world" where
  "save_capital_calls =
     save_rows ''capital_calls'' [''call_date'', ''call_type'', ''amount'', ''description'']"

definition save_distributions :: "env \<Rightarrow> entry list \<Rightarrow> int \<Rightarrow> world \<Rightarrow> exn option \<times> world" where
  "save_distributions =
     save_rows ''distributions''
       [''distribution_date'', ''distribution_type'', ''amount'', ''is_recallable'', ''description'']"

definition save_adjustments :: "env \<Rightarrow> entry list \<Rightarrow> int \<Rightarrow> world \<Rightarrow> exn option \<times> world" where
  "save_adjustments =
     save_rows ''adjustments''
       [''adjustment_date'', ''adjustment_type'', ''category'', ''amount'',
        ''is_contribution_adjustment'', ''description'']"

text \<open>
  \<open>_update_document_status\<close>: the document is looked up; if it exists its status and error
  message are set and committed. An exception of the query or of the commit is logged, the
  session is rolled back, and nothing is raised.
\<close>

definition update_document_status ::
  "env \<Rightarrow> int \<Rightarrow> string \<Rightarrow> string option \<Rightarrow> world \<Rightarrow> world" where
  "update_document_status env doc_id status err w =
     (case external_call env w of
        (Some e, w1) \<Rightarrow> db_rollback w1
      | (None, w1) \<Rightarrow>
          (case documents w1 doc_id of
             None \<Rightarrow> w1
           | Some doc \<Rightarrow>
               (case db_commit env w1 of
                  (Some e, w2) \<Rightarrow> db_rollback w2
                | (None, w2) \<Rightarrow>
                    w2\<lparr>documents := (documents w2)
                          (doc_id \<mapsto> doc\<lparr>parsing_status := status, error_message := err\<rparr>)\<rparr>)))"

section \<open>DocumentProcessor: the orchestrator\<close>

record stats =
  capital_calls :: nat
  distributions :: nat
  adjustments :: nat
  text_chunks :: nat
  tables_found :: nat
  pages_processed :: nat
  errors :: "string list"

definition initial_stats :: stats where
  "initial_stats =
     \<lparr>capital_calls = 0, distributions = 0, adjustments = 0, text_chunks = 0, tables_found = 0,
      pages_processed = 0, errors = []\<rparr>"

text \<open>\<open>str(n)\<close> for a natural number.\<close>

fun str_nat :: "nat \<Rightarrow> string" where
  "str_nat n =
     (if n < 10 then [''0123456789'' ! n]
      else str_nat (n div 10) @ [''0123456789'' ! (n mod 10)])"

declare str_nat.simps [simp del]

definition table_error :: "table_info \<Rightarrow> exn \<Rightarrow> string" where
  "table_error t e = ''Error processing table on page '' @ str_nat (page t) @ '': '' @ message e"

text \<open>
  One pass of the loop over the tables: a table that is not classified is skipped; the others
  are parsed, validated and saved, and the count of their category grows by the number of
  validated records. An exception (of the save) is recorded in the errors, and the loop goes
  on.
\<close>

definition process_table :: "env \<Rightarrow> int \<Rightarrow> stats \<times> world \<Rightarrow> table_info \<Rightarrow> stats \<times> world" where
  "process_table env fund_id sw t =
     (let st = fst sw; w = snd sw in
      case classify_table_type t of
        None \<Rightarrow> (st, w)
      | Some table_type \<Rightarrow>
          if table_type = ''capital_calls'' then
            (let validated_data = validate_and_clean_data (parse_capital_call_table t) table_type in
             case save_capital_calls env validated_data fund_id w of
               (Some e, w') \<Rightarrow> (st\<lparr>errors := errors st @ [table_error t e]\<rparr>, w')
             | (None, w') \<Rightarrow>
                 (st\<lparr>capital_calls := capital_calls st + length validated_data\<rparr>, w'))
          else if table_type = ''distributions'' then
            (let validated_data = validate_and_clean_data (parse_distribution_table t) table_type in
             case save_distributions env validated_data fund_id w of
               (Some e, w') \<Rightarrow> (st\<lparr>errors := errors st @ [table_error t e]\<rparr>, w')
             | (None, w') \<Rightarrow>
                 (st\<lparr>distributions := distributions st + length validated_data\<rparr>, w'))
          else if table_type = ''adjustments'' then
            (let validated_data = validate_and_clean_data (parse_adjustment_table t) table_type in
             case save_adjustments env validated_data fund_id w of
               (Some e, w') \<Rightarrow> (st\<lparr>errors := errors st @ [table_error t e]\<rparr>, w')
             | (None, w') \<Rightarrow>
                 (st\<lparr>adjustments := adjustments st + length validated_data\<rparr>, w'))
          else (st, w))"

definition llm_error :: "exn \<Rightarrow> string" where
  "llm_error e = ''Error in LLM-based text extraction: '' @ message e"

text \<open>
  The fallback block: the records that the language model finds are validated and saved, the
  capital calls first. An exception ends the block and is recorded in the errors; a count
  that was already raised stays.
\<close>

definition llm_fallback :: "env \<Rightarrow> int \<Rightarrow> stats \<Rightarrow> world \<Rightarrow> stats \<times> world" where
  "llm_fallback env fund_id st w0 =
     (let (llm_data, w) = extract_data_from_text env w0;
          validated_calls = validate_and_clean_data (fst llm_data) ''capital_calls'';
          validated_dists = validate_and_clean_data (snd llm_data) ''distributions'';
          (raised1, w1) = (if fst llm_data \<noteq> [] then save_capital_calls env validated_calls fund_id w
                           else (None, w));
          st1 = (if fst llm_data \<noteq> [] \<and> raised1 = None
                 then st\<lparr>capital_calls := capital_calls st + length validated_calls\<rparr> else st)
      in case raised1 of
           Some e \<Rightarrow> (st1\<lparr>errors := errors st1 @ [llm_error e]\<rparr>, w1)
         | None \<Rightarrow>
             if snd llm_data \<noteq> [] then
               (case save_distributions env validated_dists fund_id w1 of
                  (Some e, w2) \<Rightarrow> (st1\<lparr>errors := errors st1 @ [llm_error e]\<rparr>, w2)
                | (None, w2) \<Rightarrow>
                    (st1\<lparr>distributions := distributions st1 + length validated_dists\<rparr>, w2))
             else (st1, w1))"

text \<open>The metadata of a chunk.\<close>

definition chunk_metadata :: "string \<Rightarrow> int \<Rightarrow> int \<Rightarrow> chunk \<Rightarrow> entry" where
  "chunk_metadata file_path document_id fund_id c =
     [(''document_id'', PyInt document_id), (''fund_id'', PyInt fund_id),
      (''page'', PyInt (int (c_page c))), (''chunk_index'', PyInt (int (chunk_index c))),
      (''source'', PyStr file_path)]"

text \<open>The loop that stores the chunks: the first exception of \<open>add_document\<close> ends it.\<close>

fun store_chunks :: "env \<Rightarrow> string \<Rightarrow> int \<Rightarrow> int \<Rightarrow> chunk list \<Rightarrow> world \<Rightarrow> exn option \<times> world" where
  "store_chunks env file_path document_id fund_id [] w = (None, w)"
| "store_chunks env file_path document_id fund_id (c # cs) w =
     (case add_document env (c_text c) (chunk_metadata file_path document_id fund_id c) w of
        (Inl e, w') \<Rightarrow> (Some e, w')
      | (Inr doc_id, w') \<Rightarrow> store_chunks env file_path document_id fund_id cs w')"

text \<open>
  The \<open>try\<close> block of \<open>process_document\<close> up to the update of the status, in two parts.
  Each returns the exception that leaves the block (if any), the statistics as they are at
  that moment, and the world. The first part extracts the tables, runs the loop over them and,
  if no table was found or no capital call and no distribution was counted, the fallback.
\<close>

definition process_tables :: "env \<Rightarrow> int \<Rightarrow> world \<Rightarrow> exn option \<times> stats \<times> world" where
  "process_tables env fund_id w =
     (case extract_tables_from_pdf env w of
        (Inl e, w1) \<Rightarrow> (Some e, initial_stats, w1)
      | (Inr tbls, w1) \<Rightarrow>
          let sw2 = foldl (process_table env fund_id)
                      (initial_stats\<lparr>tables_found := length tbls\<rparr>, w1) tbls;
              st2 = fst sw2;
              w2 = snd sw2;
              sw3 = (if tables_found st2 = 0 \<or> (capital_calls st2 = 0 \<and> distributions st2 = 0)
                     then llm_fallback env fund_id st2 w2 else (st2, w2))
          in (None, fst sw3, snd sw3))"

text \<open>The second part extracts the text of the pages, chunks it and stores every chunk in the
  vector store.\<close>

definition index_text ::
  "env \<Rightarrow> string \<Rightarrow> int \<Rightarrow> int \<Rightarrow> stats \<Rightarrow> world \<Rightarrow> exn option \<times> stats \<times> world" where
  "index_text env file_path document_id fund_id st w =
     (case extract_text_content env w of
        (Inl e, w4) \<Rightarrow> (Some e, st, w4)
      | (Inr text_content, w4) \<Rightarrow>
          let cs = chunk_text (settings env) text_content;
              st5 = st\<lparr>pages_processed := length text_content, text_chunks := length cs\<rparr>
          in case store_chunks env file_path document_id fund_id cs w4 of
               (raised, w5) \<Rightarrow> (raised, st5, w5))"

definition process_steps ::
  "env \<Rightarrow> string \<Rightarrow> int \<Rightarrow> int \<Rightarrow> world \<Rightarrow> exn option \<times> stats \<times> world" where
  "process_steps env file_path document_id fund_id w =
     (case process_tables env fund_id w of
        (Some e, st, w') \<Rightarrow> (Some e, st, w')
      | (None, st, w') \<Rightarrow> index_text env file_path document_id fund_id st w')"

record result =
  success :: bool
  result_stats :: stats
  error :: "string option"

definition fatal_error :: "string \<Rightarrow> exn \<Rightarrow> string" where
  "fatal_error file_path e = ''Fatal error processing document '' @ file_path @ '': '' @ message e"

definition process_document ::
  "env \<Rightarrow> string \<Rightarrow> int \<Rightarrow> int \<Rightarrow> world \<Rightarrow> result \<times> world" where
  "process_document env file_path document_id fund_id w =
     (case process_steps env file_path document_id fund_id w of
        (None, st, w') \<Rightarrow>
          (\<lparr>success = True, result_stats = st, error = None\<rparr>,
           update_document_status env document_id ''completed'' None w')
      | (Some e, st, w') \<Rightarrow>
          (\<lparr>success = False,
            result_stats = st\<lparr>errors := errors st @ [fatal_error file_path e]\<rparr>,
            error = Some (fatal_error file_path e)\<rparr>,
           update_document_status env document_id ''failed'' (Some (fatal_error file_path e)) w'))"

section \<open>Example inputs\<close>

text \<open>Concrete tables, records, pages, environments and worlds on which the theorems below
  are read.\<close>

definition mixed_table :: table_info where
  "mixed_table =
     \<lparr>page = 1, table_number = 1,
      raw_data = [[Some ''Date'', Some ''Capital Call'', Some ''Distribution''],
                  [Some ''2023-01-15'', Some ''$100'', Some ''$50'']],
      headers = [Some ''Date'', Some ''Capital Call'', Some ''Distribution''],
      rows = [[Some ''2023-01-15'', Some ''$100'', Some ''$50'']]\<rparr>"

definition recalled_table :: table_info where
  "recalled_table =
     \<lparr>page = 1, table_number = 1,
      raw_data = [[Some ''Date'', Some ''Recalled Distribution Adjustment''], [Some ''2023-01-15'', None]],
      headers = [Some ''Date'', Some ''Recalled Distribution Adjustment''],
      rows = [[Some ''2023-01-15'', None]]\<rparr>"

definition rebalance_table :: table_info where
  "rebalance_table =
     \<lparr>page = 2, table_number = 1,
      raw_data = [[Some ''Date'', Some ''Amount''], [Some ''2023-01-15'', Some ''Rebalance'']],
      headers = [Some ''Date'', Some ''Amount''],
      rows = [[Some ''2023-01-15'', Some ''Rebalance'']]\<rparr>"

definition plain_table :: table_info where
  "plain_table =
     \<lparr>page = 2, table_number = 2,
      raw_data = [[Some ''Random'', Some ''Headers''], [Some ''a'', Some ''b'']],
      headers = [Some ''Random'', Some ''Headers''],
      rows = [[Some ''a'', Some ''b'']]\<rparr>"

definition call_adjustment_table :: table_info where
  "call_adjustment_table =
     \<lparr>page = 3, table_number = 1,
      raw_data = [[Some ''Date'', Some ''Capital Call Adjustment''], [Some ''2023-01-15'', Some ''1'']],
      headers = [Some ''Date'', Some ''Capital Call Adjustment''],
      rows = [[Some ''2023-01-15'', Some ''1'']]\<rparr>"

definition example_settings :: Settings where
  "example_settings = \<lparr>CHUNK_SIZE = 10, CHUNK_OVERLAP = 4\<rparr>"

definition example_page :: page_data where
  "example_page = \<lparr>p_page = 1, p_text = ''aaa. bbbbbbb. cc.'', total_pages = 1\<rparr>"

definition small_overlap_settings :: Settings where
  "small_overlap_settings = \<lparr>CHUNK_SIZE = 10, CHUNK_OVERLAP = 2\<rparr>"

definition three_sentence_page :: page_data where
  "three_sentence_page = \<lparr>p_page = 1, p_text = ''aaaa. bbbb. cccc.'', total_pages = 1\<rparr>"

definition nan_table :: table_info where
  "nan_table =
     \<lparr>page = 1, table_number = 1,
      raw_data = [[Some ''Date'', Some ''Call Number'', Some ''Amount'', Some ''Description''],
                  [Some ''2023-01-15'', Some ''Call 1'', Some ''NaN'', Some ''First call'']],
      headers = [Some ''Date'', Some ''Call Number'', Some ''Amount'', Some ''Description''],
      rows = [[Some ''2023-01-15'', Some ''Call 1'', Some ''NaN'', Some ''First call'']]\<rparr>"

definition nan_entry :: entry where
  "nan_entry =
     [(''call_date'', PyDatetime \<lparr>year = 2023, month = 1, day = 15, hour = 0, minute = 0, second = 0\<rparr>),
      (''call_type'', PyStr ''Call 1''),
      (''amount'', PyDecimal (NaN False False 0)),
      (''description'', PyStr ''First call'')]"

definition refund_entry :: entry where
  "refund_entry =
     [(''call_date'', PyDatetime \<lparr>year = 2023, month = 3, day = 1, hour = 0, minute = 0, second = 0\<rparr>),
      (''call_type'', PyStr ''Correction''),
      (''amount'', PyDecimal (Finite True 50000 0)),
      (''description'', PyStr ''Refund'')]"

definition undated_entry :: entry where
  "undated_entry =
     [(''call_date'', PyNone),
      (''call_type'', PyStr ''Standard Call''),
      (''amount'', PyDecimal (Finite False 100 0)),
      (''description'', PyStr [])]"


definition fresh_world :: world where
  "fresh_world =
     \<lparr>clock = 0, llm_calls = 0, session = [], database = [],
      documents = [7 \<mapsto> \<lparr>parsing_status = ''processing'', error_message = None\<rparr>],
      next_id = 1\<rparr>"

definition call_table :: "cell list list" where
  "call_table =
     [[Some ''Date'', Some ''Call Number'', Some ''Amount'', Some ''Description''],
      [Some ''2023-01-15'', Some ''Call 1'', Some ''$1,000,000'', Some ''Initial''],
      [Some ''2023-06-20'', Some ''Call 2'', Some ''$500,000'', Some ''Follow-on'']]"

definition call_table_info :: table_info where
  "call_table_info =
     \<lparr>page = 1, table_number = 1, raw_data = call_table, headers = hd call_table,
      rows = tl call_table\<rparr>"

definition two_page_report :: "pdf_page list" where
  "two_page_report =
     [\<lparr>tables = [call_table], extracted_text = Some ''Capital calls. Two calls were made.''\<rparr>,
      \<lparr>tables = [], extracted_text = Some ''Notes on the fund.''\<rparr>]"

definition working_env :: env where
  "working_env =
     \<lparr>settings = \<lparr>CHUNK_SIZE = 1000, CHUNK_OVERLAP = 200\<rparr>,
      pdf = two_page_report,
      fault = (\<lambda>n. None),
      llm_client = True,
      llm_reply = (\<lambda>t. Some ([], [])),
      embed_query = (\<lambda>t. [1, 0]),
      search_rows = (\<lambda>conditions embedding k. [])\<rparr>"

definition text_only_report :: "pdf_page list" where
  "text_only_report = [\<lparr>tables = [], extracted_text = Some ''Quarterly report.''\<rparr>]"

text \<open>The sixth outside call of the run, the lookup of the document in
  \<open>_update_document_status\<close>, raises.\<close>

definition lost_connection :: env where
  "lost_connection =
     \<lparr>settings = \<lparr>CHUNK_SIZE = 1000, CHUNK_OVERLAP = 200\<rparr>,
      pdf = text_only_report,
      fault = (\<lambda>n. if n = 5 then Some (Exception ''connection lost'') else None),
      llm_client = False,
      llm_reply = (\<lambda>t. None),
      embed_query = (\<lambda>t. [1, 0]),
      search_rows = (\<lambda>conditions embedding k. [])\<rparr>"

text \<open>Every collaborator works, the file has text and no table, and no language model is
  configured.\<close>

definition text_only_env :: env where
  "text_only_env =
     \<lparr>settings = \<lparr>CHUNK_SIZE = 1000, CHUNK_OVERLAP = 200\<rparr>,
      pdf = text_only_report,
      fault = (\<lambda>n. None),
      llm_client = False,
      llm_reply = (\<lambda>t. None),
      embed_query = (\<lambda>t. [1, 0]),
      search_rows = (\<lambda>conditions embedding k. [])\<rparr>"

text \<open>The third outside call of the run, the opening of the file for its text, raises.\<close>

definition file_vanishes :: env where
  "file_vanishes =
     \<lparr>settings = \<lparr>CHUNK_SIZE = 1000, CHUNK_OVERLAP = 200\<rparr>,
      pdf = two_page_report,
      fault = (\<lambda>n. if n = 2 then Some (Exception ''file vanished'') else None),
      llm_client = True,
      llm_reply = (\<lambda>t. Some ([], [])),
      embed_query = (\<lambda>t. [1, 0]),
      search_rows = (\<lambda>conditions embedding k. [])\<rparr>"

text \<open>The first outside call of the run, the opening of the file for its tables, raises.\<close>

definition unreadable_file :: env where
  "unreadable_file =
     \<lparr>settings = \<lparr>CHUNK_SIZE = 1000, CHUNK_OVERLAP = 200\<rparr>,
      pdf = two_page_report,
      fault = (\<lambda>n. if n = 0 then Some (Exception ''cannot open file'') else None),
      llm_client = True,
      llm_reply = (\<lambda>t. Some ([], [])),
      embed_query = (\<lambda>t. [1, 0]),
      search_rows = (\<lambda>conditions embedding k. [])\<rparr>"

text \<open>The fourth outside call of the run, the embedding of the first chunk, raises.\<close>

definition embedding_fails :: env where
  "embedding_fails =
     \<lparr>settings = \<lparr>CHUNK_SIZE = 1000, CHUNK_OVERLAP = 200\<rparr>,
      pdf = two_page_report,
      fault = (\<lambda>n. if n = 3 then Some (Exception ''embedding service unavailable'') else None),
      llm_client = True,
      llm_reply = (\<lambda>t. Some ([], [])),
      embed_query = (\<lambda>t. [1, 0]),
      search_rows = (\<lambda>conditions embedding k. [])\<rparr>"

text \<open>The seventh outside call of the run, the commit in \<open>_update_document_status\<close>,
  raises.\<close>

definition commit_fails :: env where
  "commit_fails =
     \<lparr>settings = \<lparr>CHUNK_SIZE = 1000, CHUNK_OVERLAP = 200\<rparr>,
      pdf = text_only_report,
      fault = (\<lambda>n. if n = 6 then Some (Exception ''commit failed'') else None),
      llm_client = False,
      llm_reply = (\<lambda>t. None),
      embed_query = (\<lambda>t. [1, 0]),
      search_rows = (\<lambda>conditions embedding k. [])\<rparr>"


section \<open>Properties of the classifier\<close>

lemma contains_iff: "contains k s \<longleftrightarrow> (\<exists>p q. s = p @ k @ q)"
proof (induction s)
  case Nil
  then show ?case by auto
next
  case (Cons c cs)
  show ?case
  proof
    assume "contains k (c # cs)"
    then consider "prefix k (c # cs)" | "contains k cs" by auto
    then show "\<exists>p q. c # cs = p @ k @ q"
    proof cases
      case 1
      then obtain q where "c # cs = k @ q" by (auto simp: prefix_def)
      then have "c # cs = [] @ k @ q" by simp
      then show ?thesis by blast
    next
      case 2
      with Cons.IH obtain p q where "cs = p @ k @ q" by blast
      then have "c # cs = (c # p) @ k @ q" by simp
      then show ?thesis by blast
    qed
  next
    assume "\<exists>p q. c # cs = p @ k @ q"
    then obtain p q where pq: "c # cs = p @ k @ q" by blast
    show "contains k (c # cs)"
    proof (cases p)
      case Nil
      with pq have "prefix k (c # cs)" by (simp add: prefix_def)
      then show ?thesis by simp
    next
      case (Cons a p')
      with pq have "cs = p' @ k @ q" by simp
      with Cons.IH have "contains k cs" by blast
      then show ?thesis by simp
    qed
  qed
qed

lemma contains_trans: "contains a b \<Longrightarrow> contains b s \<Longrightarrow> contains a s"
proof -
  assume "contains a b" and "contains b s"
  then obtain p q p' q' where "b = p @ a @ q" and "s = p' @ b @ q'"
    unfolding contains_iff by blast
  then have "s = (p' @ p) @ a @ (q @ q')" by simp
  then show ?thesis unfolding contains_iff by blast
qed

lemma recalled_distribution_contains_distribution:
  "contains ''recalled distribution'' s \<Longrightarrow> contains ''distribution'' s"
proof -
  have "''recalled distribution'' = ''recalled '' @ ''distribution'' @ []" by simp
  then have "contains ''distribution'' ''recalled distribution''"
    unfolding contains_iff by blast
  then show "contains ''recalled distribution'' s \<Longrightarrow> contains ''distribution'' s"
    by (rule contains_trans)
qed

lemma capital_call_adjustment_contains_capital_call:
  "contains ''capital call adjustment'' s \<Longrightarrow> contains ''capital call'' s"
proof -
  have "''capital call adjustment'' = [] @ ''capital call'' @ '' adjustment''" by simp
  then have "contains ''capital call'' ''capital call adjustment''"
    unfolding contains_iff by blast
  then show "contains ''capital call adjustment'' s \<Longrightarrow> contains ''capital call'' s"
    by (rule contains_trans)
qed

text \<open>
  C5. \<open>classify_table_type\<close> checks the categories in the order capital call, distribution,
  adjustment, and the first category with a keyword in the lowercased text of the headers and
  the first five rows wins: a text with a capital-call keyword is a capital-call table whatever
  else it holds (so also with a distribution keyword such as "distribution" beside "capital
  call"); with a distribution keyword and no capital-call keyword it is a distribution table,
  whatever adjustment keyword it holds; and it is an adjustment table only when neither of the
  two earlier categories matches.
\<close>

theorem classify_table_type_first_match:
  "(any_keyword CAPITAL_CALL_KEYWORDS (text_to_check t) \<longrightarrow>
      classify_table_type t = Some ''capital_calls'') \<and>
   (contains ''capital call'' (text_to_check t) \<and> contains ''distribution'' (text_to_check t) \<longrightarrow>
      classify_table_type t = Some ''capital_calls'') \<and>
   (\<not> any_keyword CAPITAL_CALL_KEYWORDS (text_to_check t) \<and>
    any_keyword DISTRIBUTION_KEYWORDS (text_to_check t) \<longrightarrow>
      classify_table_type t = Some ''distributions'') \<and>
   (\<not> any_keyword CAPITAL_CALL_KEYWORDS (text_to_check t) \<and>
    \<not> any_keyword DISTRIBUTION_KEYWORDS (text_to_check t) \<and>
    any_keyword ADJUSTMENT_KEYWORDS (text_to_check t) \<longrightarrow>
      classify_table_type t = Some ''adjustments'') \<and>
   (\<not> any_keyword CAPITAL_CALL_KEYWORDS (text_to_check t) \<and>
    \<not> any_keyword DISTRIBUTION_KEYWORDS (text_to_check t) \<and>
    \<not> any_keyword ADJUSTMENT_KEYWORDS (text_to_check t) \<longrightarrow>
      classify_table_type t = None)"
proof -
  have "contains ''capital call'' (text_to_check t) \<Longrightarrow>
        any_keyword CAPITAL_CALL_KEYWORDS (text_to_check t)"
    by (simp add: any_keyword_def CAPITAL_CALL_KEYWORDS_def)
  then show ?thesis
    by (auto simp: classify_table_type_def Let_def)
qed

theorem classify_table_type_first_match_witness:
  "classify_table_type mixed_table = Some ''capital_calls'' \<and>
   contains ''capital call'' (text_to_check mixed_table) \<and>
   contains ''distribution'' (text_to_check mixed_table) \<and>
   classify_table_type recalled_table = Some ''distributions'' \<and>
   any_keyword ADJUSTMENT_KEYWORDS (text_to_check recalled_table) \<and>
   classify_table_type rebalance_table = Some ''adjustments'' \<and>
   classify_table_type plain_table = None"
proof -
  have m: "contains ''capital call'' (text_to_check mixed_table) \<and>
           contains ''distribution'' (text_to_check mixed_table)"
    by code_simp
  have r: "\<not> any_keyword CAPITAL_CALL_KEYWORDS (text_to_check recalled_table) \<and>
           any_keyword DISTRIBUTION_KEYWORDS (text_to_check recalled_table) \<and>
           any_keyword ADJUSTMENT_KEYWORDS (text_to_check recalled_table)"
    by code_simp
  have b: "\<not> any_keyword CAPITAL_CALL_KEYWORDS (text_to_check rebalance_table) \<and>
           \<not> any_keyword DISTRIBUTION_KEYWORDS (text_to_check rebalance_table) \<and>
           any_keyword ADJUSTMENT_KEYWORDS (text_to_check rebalance_table)"
    by code_simp
  have p: "\<not> any_keyword CAPITAL_CALL_KEYWORDS (text_to_check plain_table) \<and>
           \<not> any_keyword DISTRIBUTION_KEYWORDS (text_to_check plain_table) \<and>
           \<not> any_keyword ADJUSTMENT_KEYWORDS (text_to_check plain_table)"
    by code_simp
  from m classify_table_type_first_match [of mixed_table]
  have "classify_table_type mixed_table = Some ''capital_calls''" by blast
  moreover from r classify_table_type_first_match [of recalled_table]
  have "classify_table_type recalled_table = Some ''distributions''" by blast
  moreover from b classify_table_type_first_match [of rebalance_table]
  have "classify_table_type rebalance_table = Some ''adjustments''" by blast
  moreover from p classify_table_type_first_match [of plain_table]
  have "classify_table_type plain_table = None" by blast
  ultimately show ?thesis using m r by blast
qed

text \<open>
  C10. The adjustment keywords "recalled distribution" and "capital call adjustment" never
  decide a classification: a text that contains "recalled distribution" contains the
  distribution keyword "distribution", and a text that contains "capital call adjustment"
  contains the capital-call keyword "capital call", and both categories are checked before
  the adjustments. A table is an adjustment table exactly when its text contains
  "adjustment" or "rebalance" and no capital-call and no distribution keyword.
\<close>

theorem adjustments_only_by_adjustment_or_rebalance:
  "(contains ''recalled distribution'' (text_to_check t) \<longrightarrow>
      any_keyword DISTRIBUTION_KEYWORDS (text_to_check t) \<and>
      classify_table_type t \<noteq> Some ''adjustments'') \<and>
   (contains ''capital call adjustment'' (text_to_check t) \<longrightarrow>
      any_keyword CAPITAL_CALL_KEYWORDS (text_to_check t) \<and>
      classify_table_type t = Some ''capital_calls'') \<and>
   (classify_table_type t = Some ''adjustments'' \<longleftrightarrow>
      (contains ''adjustment'' (text_to_check t) \<or> contains ''rebalance'' (text_to_check t)) \<and>
      \<not> any_keyword CAPITAL_CALL_KEYWORDS (text_to_check t) \<and>
      \<not> any_keyword DISTRIBUTION_KEYWORDS (text_to_check t))"
proof -
  let ?b = "text_to_check t"
  have d: "contains ''recalled distribution'' ?b \<Longrightarrow> any_keyword DISTRIBUTION_KEYWORDS ?b"
    using recalled_distribution_contains_distribution [of ?b]
    by (simp add: any_keyword_def DISTRIBUTION_KEYWORDS_def)
  have c: "contains ''capital call adjustment'' ?b \<Longrightarrow> any_keyword CAPITAL_CALL_KEYWORDS ?b"
    using capital_call_adjustment_contains_capital_call [of ?b]
    by (simp add: any_keyword_def CAPITAL_CALL_KEYWORDS_def)
  have a: "any_keyword ADJUSTMENT_KEYWORDS ?b \<longleftrightarrow>
           contains ''adjustment'' ?b \<or> contains ''rebalance'' ?b \<or>
           contains ''recalled distribution'' ?b \<or> contains ''capital call adjustment'' ?b"
    by (simp add: any_keyword_def ADJUSTMENT_KEYWORDS_def)
  have 1: "contains ''recalled distribution'' ?b \<longrightarrow>
             any_keyword DISTRIBUTION_KEYWORDS ?b \<and> classify_table_type t \<noteq> Some ''adjustments''"
    using d by (auto simp: classify_table_type_def Let_def)
  have 2: "contains ''capital call adjustment'' ?b \<longrightarrow>
             any_keyword CAPITAL_CALL_KEYWORDS ?b \<and> classify_table_type t = Some ''capital_calls''"
    using c by (auto simp: classify_table_type_def Let_def)
  have 3: "classify_table_type t = Some ''adjustments'' \<longleftrightarrow>
             (contains ''adjustment'' ?b \<or> contains ''rebalance'' ?b) \<and>
             \<not> any_keyword CAPITAL_CALL_KEYWORDS ?b \<and> \<not> any_keyword DISTRIBUTION_KEYWORDS ?b"
    using a c d by (auto simp: classify_table_type_def Let_def)
  from 1 2 3 show ?thesis by blast
qed

theorem adjustments_only_by_adjustment_or_rebalance_witness:
  "contains ''recalled distribution'' (text_to_check recalled_table) \<and>
   classify_table_type recalled_table \<noteq> Some ''adjustments'' \<and>
   contains ''capital call adjustment'' (text_to_check call_adjustment_table) \<and>
   classify_table_type call_adjustment_table = Some ''capital_calls'' \<and>
   contains ''rebalance'' (text_to_check rebalance_table) \<and>
   classify_table_type rebalance_table = Some ''adjustments''"
proof -
  have r: "contains ''recalled distribution'' (text_to_check recalled_table)"
    by code_simp
  have c: "contains ''capital call adjustment'' (text_to_check call_adjustment_table)"
    by code_simp
  have b: "contains ''rebalance'' (text_to_check rebalance_table) \<and>
           \<not> any_keyword CAPITAL_CALL_KEYWORDS (text_to_check rebalance_table) \<and>
           \<not> any_keyword DISTRIBUTION_KEYWORDS (text_to_check rebalance_table)"
    by code_simp
  from r adjustments_only_by_adjustment_or_rebalance [of recalled_table]
  have "classify_table_type recalled_table \<noteq> Some ''adjustments''" by blast
  moreover from c adjustments_only_by_adjustment_or_rebalance [of call_adjustment_table]
  have "classify_table_type call_adjustment_table = Some ''capital_calls''" by blast
  moreover from b adjustments_only_by_adjustment_or_rebalance [of rebalance_table]
  have "classify_table_type rebalance_table = Some ''adjustments''" by blast
  ultimately show ?thesis using r c b by blast
qed

section \<open>Properties of the normalizers\<close>

lemma startswith_nonempty: "startswith s (c # p) \<Longrightarrow> s \<noteq> []"
  by (auto simp: startswith_def)

text \<open>
  C6. \<open>_parse_amount\<close> on the four sample strings: \<open>"$1,000,000.00"\<close> gives
  \<open>Decimal("1000000.00")\<close>; \<open>"(500,000)"\<close> and \<open>"-$500,000"\<close> give \<open>Decimal("-500000")\<close>,
  which equals \<open>Decimal("-500000.00")\<close>; \<open>"not-a-number"\<close> gives \<open>None\<close>. A string in
  parentheses whose text, once the symbols \<open>$ , ( )\<close> are removed, starts with a minus sign
  is negated once: the result is the negation of the decimal read after that minus sign
  (\<open>"(-500)"\<close> gives \<open>Decimal("-500")\<close>).
\<close>

theorem parse_amount_negates_once:
  "parse_amount (AmountStr ''$1,000,000.00'') = Some (Finite False 100000000 (- 2)) \<and>
   Decimal ''1000000.00'' = Some (Finite False 100000000 (- 2)) \<and>
   parse_amount (AmountStr ''(500,000)'') = Some (Finite True 500000 0) \<and>
   parse_amount (AmountStr ''-$500,000'') = Some (Finite True 500000 0) \<and>
   Decimal ''-500000.00'' = Some (Finite True 50000000 (- 2)) \<and>
   dec_eq (Finite True 500000 0) (Finite True 50000000 (- 2)) \<and>
   parse_amount (AmountStr ''not-a-number'') = None \<and>
   parse_amount (AmountStr ''(-500)'') = Some (Finite True 500 0) \<and>
   Decimal ''-500'' = Some (Finite True 500 0) \<and>
   (startswith (strip v) ''('' \<and> endswith (strip v) '')'' \<and>
    startswith (remove_symbols (strip v)) ''-'' \<longrightarrow>
      parse_amount (AmountStr v) =
        (case Decimal (drop 1 (remove_symbols (strip v))) of
           None \<Rightarrow> None
         | Some amount \<Rightarrow> neg amount))"
proof -
  have e1: "parse_amount (AmountStr ''$1,000,000.00'') = Some (Finite False 100000000 (- 2))"
    by code_simp
  have e2: "Decimal ''1000000.00'' = Some (Finite False 100000000 (- 2))"
    by code_simp
  have e3: "parse_amount (AmountStr ''(500,000)'') = Some (Finite True 500000 0)"
    by code_simp
  have e4: "parse_amount (AmountStr ''-$500,000'') = Some (Finite True 500000 0)"
    by code_simp
  have e5: "Decimal ''-500000.00'' = Some (Finite True 50000000 (- 2))"
    by code_simp
  have e6: "dec_eq (Finite True 500000 0) (Finite True 50000000 (- 2))"
    by code_simp
  have e7: "parse_amount (AmountStr ''not-a-number'') = None"
    by code_simp
  have e8: "parse_amount (AmountStr ''(-500)'') = Some (Finite True 500 0)"
    by code_simp
  have e9: "Decimal ''-500'' = Some (Finite True 500 0)"
    by code_simp
  have g: "startswith (strip v) ''('' \<and> endswith (strip v) '')'' \<and>
    startswith (remove_symbols (strip v)) ''-'' \<longrightarrow>
      parse_amount (AmountStr v) =
        (case Decimal (drop 1 (remove_symbols (strip v))) of
           None \<Rightarrow> None
         | Some amount \<Rightarrow> neg amount)"
    using startswith_nonempty [of "strip v" "CHR ''(''" "[]"]
    by (auto simp: parse_amount_str_def Let_def split: option.splits)
  from e1 e2 e3 e4 e5 e6 e7 e8 e9 g show ?thesis by blast
qed

theorem parse_amount_negates_once_witness:
  "startswith (strip ''(-500)'') ''('' \<and> endswith (strip ''(-500)'') '')'' \<and>
   startswith (remove_symbols (strip ''(-500)'')) ''-'' \<and>
   Decimal (drop 1 (remove_symbols (strip ''(-500)''))) = Some (Finite False 500 0) \<and>
   parse_amount (AmountStr ''(-500)'') = neg (Finite False 500 0) \<and>
   neg (Finite False 500 0) = Some (Finite True 500 0)"
proof -
  have h: "startswith (strip ''(-500)'') ''('' \<and> endswith (strip ''(-500)'') '')'' \<and>
           startswith (remove_symbols (strip ''(-500)'')) ''-''"
    by code_simp
  have d: "Decimal (drop 1 (remove_symbols (strip ''(-500)''))) = Some (Finite False 500 0)"
    by code_simp
  have n: "neg (Finite False 500 0) = Some (Finite True 500 0)"
    by code_simp
  from h parse_amount_negates_once [of "''(-500)''"]
  have "parse_amount (AmountStr ''(-500)'') =
          (case Decimal (drop 1 (remove_symbols (strip ''(-500)''))) of
             None \<Rightarrow> None
           | Some amount \<Rightarrow> neg amount)"
    by blast
  then have "parse_amount (AmountStr ''(-500)'') = neg (Finite False 500 0)"
    by (simp only: d option.case)
  with h d n show ?thesis by blast
qed

lemma try_formats_first:
  "i < length fmts \<Longrightarrow> strptime s (fmts ! i) = Some d \<Longrightarrow>
   (\<forall>j<i. strptime s (fmts ! j) = None) \<Longrightarrow> try_formats s fmts = Some d"
proof (induction fmts arbitrary: i)
  case Nil
  then show ?case by simp
next
  case (Cons fmt fmts)
  show ?case
  proof (cases i)
    case 0
    with Cons.prems show ?thesis by simp
  next
    case (Suc k)
    with Cons.prems have first: "strptime s fmt = None" by auto
    from Suc Cons.prems have "k < length fmts" "strptime s (fmts ! k) = Some d" by auto
    moreover from Suc Cons.prems have "\<forall>j<k. strptime s (fmts ! j) = None" by auto
    ultimately have "try_formats s fmts = Some d" by (rule Cons.IH)
    with first show ?thesis by simp
  qed
qed

lemma try_formats_none:
  "(\<forall>fmt \<in> set fmts. strptime s fmt = None) \<Longrightarrow> try_formats s fmts = None"
  by (induction fmts) auto

lemma try_formats_some:
  "try_formats s fmts = Some d \<Longrightarrow>
   \<exists>i<length fmts. strptime s (fmts ! i) = Some d \<and> (\<forall>j<i. strptime s (fmts ! j) = None)"
proof (induction fmts)
  case Nil
  then show ?case by simp
next
  case (Cons fmt fmts)
  show ?case
  proof (cases "strptime s fmt")
    case (Some d')
    with Cons.prems have "d' = d" by simp
    with Some have "strptime s ((fmt # fmts) ! 0) = Some d \<and> (\<forall>j<0. strptime s ((fmt # fmts) ! j) = None)"
      by simp
    then show ?thesis by blast
  next
    case None
    with Cons.prems have "try_formats s fmts = Some d" by simp
    with Cons.IH obtain i where i: "i < length fmts" "strptime s (fmts ! i) = Some d"
      "\<forall>j<i. strptime s (fmts ! j) = None" by blast
    have "\<forall>j<Suc i. strptime s ((fmt # fmts) ! j) = None"
    proof (intro allI impI)
      fix j assume "j < Suc i"
      then show "strptime s ((fmt # fmts) ! j) = None"
        using None i(3) by (cases j) auto
    qed
    with i have "Suc i < length (fmt # fmts) \<and> strptime s ((fmt # fmts) ! Suc i) = Some d \<and>
      (\<forall>j<Suc i. strptime s ((fmt # fmts) ! j) = None)" by simp
    then show ?thesis by blast
  qed
qed

text \<open>
  C7. \<open>_parse_date\<close> tries the formats \<open>%Y-%m-%d\<close>, \<open>%m/%d/%Y\<close>, \<open>%d/%m/%Y\<close>,
  \<open>%Y/%m/%d\<close>, \<open>%m-%d-%Y\<close>, \<open>%d-%m-%Y\<close>, \<open>%B %d, %Y\<close>, \<open>%b %d, %Y\<close>, \<open>%Y%m%d\<close> in
  this order on the stripped string and returns the parse of the first format that accepts
  it: a result is always the parse of a format before which every format fails. A blank
  string gives \<open>None\<close>, and so does a string that no format accepts. The ambiguous
  \<open>"03-04-2023"\<close> is March 4 (month first), although \<open>%d-%m-%Y\<close> alone would read April 3.
\<close>

theorem parse_date_first_format_wins:
  "date_formats =
     [''%Y-%m-%d'', ''%m/%d/%Y'', ''%d/%m/%Y'', ''%Y/%m/%d'', ''%m-%d-%Y'', ''%d-%m-%Y'',
      ''%B %d, %Y'', ''%b %d, %Y'', ''%Y%m%d''] \<and>
   (strip v \<noteq> [] \<and> i < length date_formats \<and>
    strptime (strip v) (date_formats ! i) = Some d \<and>
    (\<forall>j<i. strptime (strip v) (date_formats ! j) = None) \<longrightarrow>
      parse_date (DateStr v) = Some d) \<and>
   (parse_date (DateStr v) = Some d \<longrightarrow>
      (\<exists>i<length date_formats. strptime (strip v) (date_formats ! i) = Some d \<and>
         (\<forall>j<i. strptime (strip v) (date_formats ! j) = None))) \<and>
   (strip v = [] \<longrightarrow> parse_date (DateStr v) = None) \<and>
   ((\<forall>fmt \<in> set date_formats. strptime (strip v) fmt = None) \<longrightarrow>
      parse_date (DateStr v) = None) \<and>
   parse_date (DateStr ''03-04-2023'') =
     Some \<lparr>year = 2023, month = 3, day = 4, hour = 0, minute = 0, second = 0\<rparr> \<and>
   strptime ''03-04-2023'' ''%d-%m-%Y'' =
     Some \<lparr>year = 2023, month = 4, day = 3, hour = 0, minute = 0, second = 0\<rparr>"
proof -
  have 1: "strip v \<noteq> [] \<and> i < length date_formats \<and>
    strptime (strip v) (date_formats ! i) = Some d \<and>
    (\<forall>j<i. strptime (strip v) (date_formats ! j) = None) \<longrightarrow>
      parse_date (DateStr v) = Some d"
    using try_formats_first [of i date_formats "strip v" d] by (simp add: Let_def)
  have 2: "parse_date (DateStr v) = Some d \<longrightarrow>
      (\<exists>i<length date_formats. strptime (strip v) (date_formats ! i) = Some d \<and>
         (\<forall>j<i. strptime (strip v) (date_formats ! j) = None))"
    using try_formats_some [of "strip v" date_formats d]
    by (simp add: Let_def split: if_splits)
  have 3: "strip v = [] \<longrightarrow> parse_date (DateStr v) = None"
    by simp
  have 4: "(\<forall>fmt \<in> set date_formats. strptime (strip v) fmt = None) \<longrightarrow>
      parse_date (DateStr v) = None"
    using try_formats_none [of date_formats "strip v"] by (simp add: Let_def)
  have 5: "parse_date (DateStr ''03-04-2023'') =
     Some \<lparr>year = 2023, month = 3, day = 4, hour = 0, minute = 0, second = 0\<rparr>"
    by code_simp
  have 6: "strptime ''03-04-2023'' ''%d-%m-%Y'' =
     Some \<lparr>year = 2023, month = 4, day = 3, hour = 0, minute = 0, second = 0\<rparr>"
    by code_simp
  from 1 2 3 4 5 6 show ?thesis
    unfolding date_formats_def [symmetric] by (simp add: date_formats_def [symmetric]) 
qed

theorem parse_date_first_format_wins_witness:
  "strip ''03-04-2023'' \<noteq> [] \<and> (4::nat) < length date_formats \<and>
   date_formats ! 4 = ''%m-%d-%Y'' \<and>
   strptime (strip ''03-04-2023'') (date_formats ! 4) =
     Some \<lparr>year = 2023, month = 3, day = 4, hour = 0, minute = 0, second = 0\<rparr> \<and>
   list_all (\<lambda>j. strptime (strip ''03-04-2023'') (date_formats ! j) = None) [0, 1, 2, 3] \<and>
   parse_date (DateStr ''03-04-2023'') =
     Some \<lparr>year = 2023, month = 3, day = 4, hour = 0, minute = 0, second = 0\<rparr> \<and>
   strip ''   '' = [] \<and> parse_date (DateStr ''   '') = None \<and>
   list_all (\<lambda>fmt. strptime (strip ''invalid-date'') fmt = None) date_formats \<and>
   parse_date (DateStr ''invalid-date'') = None"
proof -
  let ?d = "\<lparr>year = 2023, month = 3, day = 4, hour = 0, minute = 0, second = 0\<rparr>"
  have a: "strip ''03-04-2023'' \<noteq> [] \<and> (4::nat) < length date_formats \<and>
           date_formats ! 4 = ''%m-%d-%Y''"
    by code_simp
  have b: "strptime (strip ''03-04-2023'') (date_formats ! 4) = Some ?d"
    by code_simp
  have c: "list_all (\<lambda>j. strptime (strip ''03-04-2023'') (date_formats ! j) = None) [0, 1, 2, 3]"
    by code_simp
  have c': "\<forall>j<4. strptime (strip ''03-04-2023'') (date_formats ! j) = None"
  proof (intro allI impI)
    fix j :: nat assume "j < 4"
    then have "j \<in> set [0, 1, 2, 3]" by auto
    with c show "strptime (strip ''03-04-2023'') (date_formats ! j) = None"
      unfolding list_all_iff by blast
  qed
  have e: "strip ''   '' = []"
    by code_simp
  have f: "list_all (\<lambda>fmt. strptime (strip ''invalid-date'') fmt = None) date_formats"
    by code_simp
  from a b c' parse_date_first_format_wins [of "''03-04-2023''" 4 ?d]
  have 1: "parse_date (DateStr ''03-04-2023'') = Some ?d" by blast
  from e parse_date_first_format_wins [of "''   ''" 0 ?d]
  have 2: "parse_date (DateStr ''   '') = None" by blast
  from f have "\<forall>fmt \<in> set date_formats. strptime (strip ''invalid-date'') fmt = None"
    unfolding list_all_iff .
  with parse_date_first_format_wins [of "''invalid-date''" 0 ?d]
  have 3: "parse_date (DateStr ''invalid-date'') = None" by blast
  from a b c e f 1 2 3 show ?thesis by blast
qed

section \<open>Properties of the chunker\<close>

lemma total_length_simps [simp]:
  "total_length [] = 0"
  "total_length (s # ss) = length s + total_length ss"
  "total_length (xs @ ys) = total_length xs + total_length ys"
  by (simp_all add: total_length_def)

lemma overlap_loop_spec:
  "overlap_loop ob xs ov len = (ov', len') \<Longrightarrow> len = total_length ov \<Longrightarrow>
   len' = total_length ov' \<and> (\<exists>k \<le> length xs. ov' = rev (take k xs) @ ov \<and>
     (ov' \<noteq> ov \<longrightarrow> int len' \<le> ob) \<and>
     (k < length xs \<longrightarrow> int (len' + length (xs ! k)) > ob))"
proof (induction xs arbitrary: ov len)
  case Nil
  then show ?case by auto
next
  case (Cons x xs)
  show ?case
  proof (cases "int (len + length x) \<le> ob")
    case True
    with Cons.prems have rec: "overlap_loop ob xs (x # ov) (len + length x) = (ov', len')"
      by simp
    from Cons.prems have "len + length x = total_length (x # ov)" by simp
    from Cons.IH [OF rec this] obtain k where k: "len' = total_length ov'" "k \<le> length xs"
      "ov' = rev (take k xs) @ x # ov" "ov' \<noteq> x # ov \<longrightarrow> int len' \<le> ob"
      "k < length xs \<longrightarrow> int (len' + length (xs ! k)) > ob"
      by blast
    have "int len' \<le> ob"
    proof (cases "ov' = x # ov")
      case True
      with k(1) Cons.prems(2) \<open>int (len + length x) \<le> ob\<close> show ?thesis by simp
    next
      case False
      with k(4) show ?thesis by simp
    qed
    with k have "Suc k \<le> length (x # xs) \<and> ov' = rev (take (Suc k) (x # xs)) @ ov \<and>
      (ov' \<noteq> ov \<longrightarrow> int len' \<le> ob) \<and>
      (Suc k < length (x # xs) \<longrightarrow> int (len' + length ((x # xs) ! Suc k)) > ob)"
      by simp
    with k(1) show ?thesis by blast
  next
    case False
    with Cons.prems have "ov' = ov" "len' = len" by auto
    with False Cons.prems(2) have "len' = total_length ov' \<and> 0 \<le> length (x # xs) \<and>
      ov' = rev (take 0 (x # xs)) @ ov \<and> (ov' \<noteq> ov \<longrightarrow> int len' \<le> ob) \<and>
      (0 < length (x # xs) \<longrightarrow> int (len' + length ((x # xs) ! 0)) > ob)"
      by simp
    then show ?thesis by blast
  qed
qed

lemma overlap_loop_total:
  "snd (overlap_loop ob (rev cur) [] 0) = total_length (overlap_sentences ob cur)"
  using overlap_loop_spec [of ob "rev cur" "[]" 0 "fst (overlap_loop ob (rev cur) [] 0)"
      "snd (overlap_loop ob (rev cur) [] 0)"]
  by (simp add: overlap_sentences_def)

lemma overlap_sentences_spec:
  "\<exists>k \<le> length cur. overlap_sentences ob cur = drop (length cur - k) cur \<and>
     (overlap_sentences ob cur \<noteq> [] \<longrightarrow> int (total_length (overlap_sentences ob cur)) \<le> ob) \<and>
     (k < length cur \<longrightarrow>
        int (total_length (drop (length cur - Suc k) cur)) > ob)"
proof -
  obtain ov' len' where r: "overlap_loop ob (rev cur) [] 0 = (ov', len')"
    by (cases "overlap_loop ob (rev cur) [] 0")
  have "0 = total_length ([] :: string list)" by simp
  from overlap_loop_spec [OF r this] obtain k where k: "len' = total_length ov'"
    "k \<le> length (rev cur)" "ov' = rev (take k (rev cur)) @ []"
    "ov' \<noteq> [] \<longrightarrow> int len' \<le> ob" "k < length (rev cur) \<longrightarrow> int (len' + length (rev cur ! k)) > ob"
    by blast
  from r have ov: "overlap_sentences ob cur = ov'" by (simp add: overlap_sentences_def)
  from k(2,3) have d: "ov' = drop (length cur - k) cur"
    by (simp add: take_rev)
  have "k < length cur \<longrightarrow> int (total_length (drop (length cur - Suc k) cur)) > ob"
  proof
    assume kl: "k < length cur"
    then have "drop (length cur - Suc k) cur = cur ! (length cur - Suc k) # drop (length cur - k) cur"
      by (metis Cons_nth_drop_Suc Suc_diff_Suc diff_less zero_less_Suc length_greater_0_conv
          less_nat_zero_code list.size(3))
    moreover from kl have "rev cur ! k = cur ! (length cur - Suc k)"
      by (simp add: rev_nth)
    ultimately show "int (total_length (drop (length cur - Suc k) cur)) > ob"
      using k(5) kl d k(1) by (simp add: add.commute)
  qed
  with k ov d show ?thesis by auto
qed

lemma number_chunks_Nil [simp]: "number_chunks pg i [] = []"
  by (simp add: number_chunks_def)

lemma number_chunks_Cons [simp]:
  "number_chunks pg i (g # G) = make_chunk g pg i # number_chunks pg (Suc i) G"
  by (simp del: upt_Suc add: number_chunks_def upt_conv_Cons)

lemma foldl_add_sentence:
  "current_length st = total_length (current_chunk st) \<Longrightarrow>
   (let st' = foldl (add_sentence cfg pg) st ss in
      if current_chunk st' \<noteq> []
      then chunks st' @ [make_chunk (current_chunk st') pg (current_index st')]
      else chunks st') =
   chunks st @ number_chunks pg (current_index st) (sentence_groups cfg (current_chunk st) ss)"
proof (induction ss arbitrary: st)
  case Nil
  then show ?case by simp
next
  case (Cons s ss)
  let ?st1 = "add_sentence cfg pg st s"
  show ?case
  proof (cases "int (current_length st + length s) > CHUNK_SIZE cfg \<and> current_chunk st \<noteq> []")
    case True
    let ?ov = "overlap_sentences (CHUNK_OVERLAP cfg) (current_chunk st)"
    from True have st1: "chunks ?st1 = chunks st @ [make_chunk (current_chunk st) pg (current_index st)]"
      "current_chunk ?st1 = ?ov @ [s]"
      "current_length ?st1 = total_length (?ov @ [s])"
      "current_index ?st1 = Suc (current_index st)"
      by (simp_all add: add_sentence_def Let_def overlap_sentences_def overlap_loop_total [unfolded overlap_sentences_def])
    from st1(2,3) have "current_length ?st1 = total_length (current_chunk ?st1)" by simp
    from Cons.IH [OF this] st1 True Cons.prems show ?thesis by simp
  next
    case False
    then have st1: "chunks ?st1 = chunks st" "current_chunk ?st1 = current_chunk st @ [s]"
      "current_length ?st1 = current_length st + length s"
      "current_index ?st1 = current_index st"
      by (auto simp: add_sentence_def Let_def)
    with Cons.prems have "current_length ?st1 = total_length (current_chunk ?st1)" by simp
    from Cons.IH [OF this] st1 False Cons.prems show ?thesis by auto
  qed
qed

lemma chunk_page_groups:
  "chunk_page cfg cs pd =
     cs @ number_chunks (p_page pd) 0 (sentence_groups cfg [] (split_into_sentences (p_text pd)))"
  using foldl_add_sentence [of "\<lparr>chunks = cs, current_chunk = [], current_length = 0, current_index = 0\<rparr>"
      cfg "p_page pd" "split_into_sentences (p_text pd)"]
  by (simp add: chunk_page_def Let_def)

lemma foldl_chunk_page:
  "foldl (chunk_page cfg) cs pds =
     cs @ concat (map (\<lambda>pd. number_chunks (p_page pd) 0
                       (sentence_groups cfg [] (split_into_sentences (p_text pd)))) pds)"
proof (induction pds arbitrary: cs)
  case Nil
  then show ?case by simp
next
  case (Cons pd pds)
  show ?case by (simp add: Cons.IH chunk_page_groups [of cfg cs pd])
qed

lemma chunk_text_groups:
  "chunk_text cfg text_content =
     concat (map (\<lambda>pd. number_chunks (p_page pd) 0
                   (sentence_groups cfg [] (split_into_sentences (p_text pd)))) text_content)"
  by (simp add: chunk_text_def foldl_chunk_page)

lemma sentence_groups_within_budget:
  "cur = [] \<or> within_budget cfg cur \<Longrightarrow> g \<in> set (sentence_groups cfg cur ss) \<Longrightarrow>
   g \<noteq> [] \<and> within_budget cfg g"
proof (induction ss arbitrary: cur)
  case Nil
  then show ?case by (auto split: if_splits)
next
  case (Cons s ss)
  show ?case
  proof (cases "int (total_length cur + length s) > CHUNK_SIZE cfg \<and> cur \<noteq> []")
    case True
    let ?ov = "overlap_sentences (CHUNK_OVERLAP cfg) cur"
    from overlap_sentences_spec [of cur "CHUNK_OVERLAP cfg"]
    have "?ov \<noteq> [] \<longrightarrow> int (total_length ?ov) \<le> CHUNK_OVERLAP cfg" by blast
    then have next_ok: "?ov @ [s] = [] \<or> within_budget cfg (?ov @ [s])"
      by (cases "?ov = []") (simp_all add: within_budget_def)
    from True Cons.prems(2) consider "g = cur" | "g \<in> set (sentence_groups cfg (?ov @ [s]) ss)"
      by auto
    then show ?thesis
    proof cases
      case 1
      with True Cons.prems(1) show ?thesis by simp
    next
      case 2
      from Cons.IH [OF next_ok 2] show ?thesis .
    qed
  next
    case False
    with Cons.prems(2) have g: "g \<in> set (sentence_groups cfg (cur @ [s]) ss)" by auto
    from False have "cur @ [s] = [] \<or> within_budget cfg (cur @ [s])"
      by (cases "cur = []") (auto simp: within_budget_def)
    from Cons.IH [OF this g] show ?thesis .
  qed
qed

lemma sentence_groups_nonempty: "cur \<noteq> [] \<Longrightarrow> sentence_groups cfg cur ss \<noteq> []"
  by (induction ss arbitrary: cur) auto

lemma sentence_groups_hd:
  "cur \<noteq> [] \<Longrightarrow> prefix cur (hd (sentence_groups cfg cur ss))"
proof (induction ss arbitrary: cur)
  case Nil
  then show ?case by simp
next
  case (Cons s ss)
  show ?case
  proof (cases "int (total_length cur + length s) > CHUNK_SIZE cfg \<and> cur \<noteq> []")
    case True
    then show ?thesis by simp
  next
    case False
    have "prefix (cur @ [s]) (hd (sentence_groups cfg (cur @ [s]) ss))"
      by (rule Cons.IH) simp
    then have "prefix cur (hd (sentence_groups cfg (cur @ [s]) ss))"
      by (rule append_prefixD)
    with False show ?thesis by auto
  qed
qed

lemma sentence_groups_consecutive:
  "Suc i < length (sentence_groups cfg cur ss) \<Longrightarrow>
   \<exists>rest. rest \<noteq> [] \<and>
     sentence_groups cfg cur ss ! Suc i =
       overlap_sentences (CHUNK_OVERLAP cfg) (sentence_groups cfg cur ss ! i) @ rest"
proof (induction ss arbitrary: cur i)
  case Nil
  then show ?case by (simp split: if_splits)
next
  case (Cons s ss)
  show ?case
  proof (cases "int (total_length cur + length s) > CHUNK_SIZE cfg \<and> cur \<noteq> []")
    case True
    let ?ov = "overlap_sentences (CHUNK_OVERLAP cfg) cur"
    let ?G = "sentence_groups cfg (?ov @ [s]) ss"
    from True have G: "sentence_groups cfg cur (s # ss) = cur # ?G" by simp
    show ?thesis
    proof (cases i)
      case 0
      have "prefix (?ov @ [s]) (hd ?G)" by (rule sentence_groups_hd) simp
      then obtain more where "hd ?G = (?ov @ [s]) @ more" by (auto simp: prefix_def)
      moreover have "?G \<noteq> []" by (rule sentence_groups_nonempty) simp
      ultimately have "?G ! 0 = ?ov @ (s # more)" by (simp add: hd_conv_nth)
      with 0 G show ?thesis by simp
    next
      case (Suc j)
      with Cons.prems G have "Suc j < length ?G" by simp
      from Cons.IH [OF this] Suc G show ?thesis by simp
    qed
  next
    case False
    then have G: "sentence_groups cfg cur (s # ss) = sentence_groups cfg (cur @ [s]) ss" by auto
    with Cons.prems have "Suc i < length (sentence_groups cfg (cur @ [s]) ss)" by simp
    from Cons.IH [OF this] G show ?thesis by simp
  qed
qed

lemma sentence_groups_sublist:
  "suffix cur seen \<Longrightarrow> g \<in> set (sentence_groups cfg cur ss) \<Longrightarrow> sublist g (seen @ ss)"
proof (induction ss arbitrary: cur seen)
  case Nil
  then show ?case by (auto split: if_splits)
next
  case (Cons s ss)
  show ?case
  proof (cases "int (total_length cur + length s) > CHUNK_SIZE cfg \<and> cur \<noteq> []")
    case True
    let ?ov = "overlap_sentences (CHUNK_OVERLAP cfg) cur"
    from overlap_sentences_spec [of cur "CHUNK_OVERLAP cfg"] have "suffix ?ov cur"
      by (auto simp: suffix_drop)
    with Cons.prems(1) have "suffix ?ov seen" by (metis suffix_order.trans)
    then have next_ok: "suffix (?ov @ [s]) (seen @ [s])" by simp
    from True Cons.prems(2) consider "g = cur" | "g \<in> set (sentence_groups cfg (?ov @ [s]) ss)"
      by auto
    then show ?thesis
    proof cases
      case 1
      from Cons.prems(1) obtain zs where "seen = zs @ cur" by (auto simp: suffix_def)
      with 1 have "seen @ s # ss = zs @ g @ (s # ss)" by simp
      then show ?thesis unfolding sublist_def by blast
    next
      case 2
      from Cons.IH [OF next_ok 2] show ?thesis by simp
    qed
  next
    case False
    with Cons.prems(2) have g: "g \<in> set (sentence_groups cfg (cur @ [s]) ss)" by auto
    from Cons.prems(1) have "suffix (cur @ [s]) (seen @ [s])" by simp
    from Cons.IH [OF this g] show ?thesis by simp
  qed
qed

lemma suffix_total_length: "suffix a b \<Longrightarrow> total_length a \<le> total_length b"
  by (auto simp: suffix_def)

lemma overlap_sentences_longest:
  "suffix (overlap_sentences ob cur) cur \<and>
   (overlap_sentences ob cur \<noteq> [] \<longrightarrow> int (total_length (overlap_sentences ob cur)) \<le> ob) \<and>
   (\<forall>ov'. suffix ov' cur \<and> length (overlap_sentences ob cur) < length ov' \<longrightarrow>
      ob < int (total_length ov'))"
proof -
  from overlap_sentences_spec [of cur ob] obtain k where k: "k \<le> length cur"
    "overlap_sentences ob cur = drop (length cur - k) cur"
    "overlap_sentences ob cur \<noteq> [] \<longrightarrow> int (total_length (overlap_sentences ob cur)) \<le> ob"
    "k < length cur \<longrightarrow> int (total_length (drop (length cur - Suc k) cur)) > ob"
    by blast
  from k(2) have s: "suffix (overlap_sentences ob cur) cur" by (simp add: suffix_drop)
  from k(1,2) have len: "length (overlap_sentences ob cur) = k" by simp
  have "\<forall>ov'. suffix ov' cur \<and> k < length ov' \<longrightarrow> ob < int (total_length ov')"
  proof (intro allI impI)
    fix ov' assume a: "suffix ov' cur \<and> k < length ov'"
    then have ov': "ov' = drop (length cur - length ov') cur"
      by (auto simp: suffix_def)
    from a have le: "length ov' \<le> length cur" by (auto simp: suffix_def)
    with a have kl: "k < length cur" by simp
    have "suffix (drop (length cur - Suc k) cur) (drop (length cur - length ov') cur)"
    proof -
      from a le have "length cur - Suc k = (length cur - length ov') + (length ov' - Suc k)"
        by simp
      then have "drop (length cur - Suc k) cur =
                   drop (length ov' - Suc k) (drop (length cur - length ov') cur)"
        by (simp add: add.commute)
      then show ?thesis by (metis suffix_drop)
    qed
    with ov' have "suffix (drop (length cur - Suc k) cur) ov'" by simp
    then have "total_length (drop (length cur - Suc k) cur) \<le> total_length ov'"
      by (rule suffix_total_length)
    with k(4) kl show "ob < int (total_length ov')" by simp
  qed
  with s k(3) len show ?thesis by simp
qed

text \<open>
  C3, as stated, fails. With a chunk size of 10 and an overlap budget of 4, the text
  \<open>"aaa. bbbbbbb. cc."\<close> has the sentences \<open>"aaa."\<close>, \<open>"bbbbbbb."\<close> and \<open>"cc."\<close>, none longer
  than the chunk size, and its second chunk is \<open>"aaa. bbbbbbb."\<close> with a \<open>char_count\<close> of 13:
  the sentence \<open>"aaa."\<close> is carried over as overlap and \<open>"bbbbbbb."\<close> is added to it without
  a check.
\<close>

theorem chunk_exceeds_size_without_long_sentence:
  "split_into_sentences (p_text example_page) = [''aaa.'', ''bbbbbbb.'', ''cc.''] \<and>
   list_all (\<lambda>s. int (length s) \<le> CHUNK_SIZE example_settings)
     (split_into_sentences (p_text example_page)) \<and>
   map (\<lambda>c. (c_text c, chunk_index c, char_count c)) (chunk_text example_settings [example_page]) =
     [(''aaa.'', 0, 4), (''aaa. bbbbbbb.'', 1, 13), (''cc.'', 2, 3)] \<and>
   CHUNK_SIZE example_settings < int (char_count (chunk_text example_settings [example_page] ! 1))"
  by code_simp

text \<open>
  C3, amended. The chunks of the pages are the sentence groups of each page, joined by blanks
  and numbered from 0. Every group is a non-empty run of consecutive sentences of its page,
  and its sentences total at most the chunk size, unless the group is a single sentence or
  is one sentence that follows carried-over sentences which fit into the overlap budget.
\<close>

theorem chunk_sentences_within_budget:
  "chunk_text cfg text_content =
     concat (map (\<lambda>pd. number_chunks (p_page pd) 0
                   (sentence_groups cfg [] (split_into_sentences (p_text pd)))) text_content) \<and>
   (g \<in> set (sentence_groups cfg [] (split_into_sentences (p_text pd))) \<longrightarrow>
      g \<noteq> [] \<and> sublist g (split_into_sentences (p_text pd)) \<and>
      (int (total_length g) \<le> CHUNK_SIZE cfg \<or> length g = 1 \<or>
       (butlast g \<noteq> [] \<and> int (total_length (butlast g)) \<le> CHUNK_OVERLAP cfg)))"
proof -
  have "g \<in> set (sentence_groups cfg [] (split_into_sentences (p_text pd))) \<longrightarrow>
      g \<noteq> [] \<and> sublist g (split_into_sentences (p_text pd)) \<and> within_budget cfg g"
    using sentence_groups_within_budget [of "[]" cfg g "split_into_sentences (p_text pd)"]
      sentence_groups_sublist [of "[]" "[]" g cfg "split_into_sentences (p_text pd)"]
    by simp
  then show ?thesis
    by (simp add: chunk_text_groups within_budget_def)
qed

theorem chunk_sentences_within_budget_witness:
  "chunk_text example_settings [example_page] =
     number_chunks 1 0 (sentence_groups example_settings [] (split_into_sentences (p_text example_page))) \<and>
   sentence_groups example_settings [] (split_into_sentences (p_text example_page)) =
     [[''aaa.''], [''aaa.'', ''bbbbbbb.''], [''cc.'']] \<and>
   sublist [''aaa.'', ''bbbbbbb.''] (split_into_sentences (p_text example_page)) \<and>
   CHUNK_SIZE example_settings < int (total_length [''aaa.'', ''bbbbbbb.'']) \<and>
   butlast [''aaa.'', ''bbbbbbb.''] \<noteq> [] \<and>
   int (total_length (butlast [''aaa.'', ''bbbbbbb.''])) \<le> CHUNK_OVERLAP example_settings"
proof -
  let ?g = "[''aaa.'', ''bbbbbbb.'']"
  have G: "sentence_groups example_settings [] (split_into_sentences (p_text example_page)) =
     [[''aaa.''], ?g, [''cc.'']]"
    by code_simp
  then have m: "?g \<in> set (sentence_groups example_settings [] (split_into_sentences (p_text example_page)))"
    by simp
  have big: "CHUNK_SIZE example_settings < int (total_length ?g)" "length ?g \<noteq> 1"
    by (simp_all add: example_settings_def)
  from chunk_sentences_within_budget [of example_settings "[example_page]" ?g example_page] m
  have 1: "chunk_text example_settings [example_page] =
     concat (map (\<lambda>pd. number_chunks (p_page pd) 0
        (sentence_groups example_settings [] (split_into_sentences (p_text pd)))) [example_page])"
    and 2: "sublist ?g (split_into_sentences (p_text example_page))"
    and 3: "int (total_length ?g) \<le> CHUNK_SIZE example_settings \<or> length ?g = 1 \<or>
       (butlast ?g \<noteq> [] \<and> int (total_length (butlast ?g)) \<le> CHUNK_OVERLAP example_settings)"
    by blast+
  from 3 big have 4: "butlast ?g \<noteq> [] \<and> int (total_length (butlast ?g)) \<le> CHUNK_OVERLAP example_settings"
    by linarith
  from 1 have 5: "chunk_text example_settings [example_page] =
     number_chunks 1 0 (sentence_groups example_settings [] (split_into_sentences (p_text example_page)))"
    by (simp add: example_page_def)
  from 5 G 2 big(1) 4 show ?thesis by blast
qed

text \<open>
  C4, as stated, fails. With a chunk size of 10 and an overlap budget of 2, the text
  \<open>"aaaa. bbbb. cccc."\<close> gives the chunks \<open>"aaaa. bbbb."\<close> and \<open>"cccc."\<close>: the first chunk is
  longer than the overlap budget, and the second shares no sentence with it, because the last
  sentence \<open>"bbbb."\<close> alone does not fit into the budget.
\<close>

theorem closed_chunk_without_overlap:
  "map (\<lambda>c. (c_text c, chunk_index c, char_count c))
       (chunk_text small_overlap_settings [three_sentence_page]) =
     [(''aaaa. bbbb.'', 0, 11), (''cccc.'', 1, 5)] \<and>
   sentence_groups small_overlap_settings [] (split_into_sentences (p_text three_sentence_page)) =
     [[''aaaa.'', ''bbbb.''], [''cccc.'']] \<and>
   CHUNK_OVERLAP small_overlap_settings < int (total_length [''aaaa.'', ''bbbb.'']) \<and>
   overlap_sentences (CHUNK_OVERLAP small_overlap_settings) [''aaaa.'', ''bbbb.''] = []"
  by code_simp

text \<open>
  C4, amended. The chunks of a page are its sentence groups, and each group after the first
  starts with the overlap of the group before it, followed by at least one new sentence. The
  overlap of a closed chunk is a run of its last sentences; if it is not empty it totals at
  most the overlap budget, and every longer run of last sentences exceeds the budget: the
  overlap is the longest run of trailing sentences that fits, possibly none.
\<close>

theorem next_chunk_starts_with_overlap:
  "chunk_page cfg cs pd =
     cs @ number_chunks (p_page pd) 0 (sentence_groups cfg [] (split_into_sentences (p_text pd))) \<and>
   (Suc i < length (sentence_groups cfg [] (split_into_sentences (p_text pd))) \<longrightarrow>
      (\<exists>rest. rest \<noteq> [] \<and>
         sentence_groups cfg [] (split_into_sentences (p_text pd)) ! Suc i =
           overlap_sentences (CHUNK_OVERLAP cfg)
             (sentence_groups cfg [] (split_into_sentences (p_text pd)) ! i) @ rest)) \<and>
   suffix (overlap_sentences (CHUNK_OVERLAP cfg) closed_chunk) closed_chunk \<and>
   (overlap_sentences (CHUNK_OVERLAP cfg) closed_chunk \<noteq> [] \<longrightarrow>
      int (total_length (overlap_sentences (CHUNK_OVERLAP cfg) closed_chunk)) \<le> CHUNK_OVERLAP cfg) \<and>
   (suffix longer closed_chunk \<and>
    length (overlap_sentences (CHUNK_OVERLAP cfg) closed_chunk) < length longer \<longrightarrow>
      CHUNK_OVERLAP cfg < int (total_length longer))"
  using chunk_page_groups [of cfg cs pd]
    sentence_groups_consecutive [of i cfg "[]" "split_into_sentences (p_text pd)"]
    overlap_sentences_longest [of "CHUNK_OVERLAP cfg" closed_chunk]
  by blast

theorem next_chunk_starts_with_overlap_witness:
  "sentence_groups example_settings [] (split_into_sentences (p_text example_page)) =
     [[''aaa.''], [''aaa.'', ''bbbbbbb.''], [''cc.'']] \<and>
   overlap_sentences (CHUNK_OVERLAP example_settings) [''aaa.''] = [''aaa.''] \<and>
   (\<exists>rest. rest \<noteq> [] \<and> [''aaa.'', ''bbbbbbb.''] =
      overlap_sentences (CHUNK_OVERLAP example_settings) [''aaa.''] @ rest) \<and>
   overlap_sentences (CHUNK_OVERLAP example_settings) [''aaa.'', ''bbbbbbb.''] = [] \<and>
   suffix [''bbbbbbb.''] [''aaa.'', ''bbbbbbb.''] \<and>
   CHUNK_OVERLAP example_settings < int (total_length [''bbbbbbb.''])"
proof -
  let ?G = "sentence_groups example_settings [] (split_into_sentences (p_text example_page))"
  have G: "?G = [[''aaa.''], [''aaa.'', ''bbbbbbb.''], [''cc.'']]"
    by code_simp
  have o1: "overlap_sentences (CHUNK_OVERLAP example_settings) [''aaa.''] = [''aaa.'']"
    by code_simp
  have o2: "overlap_sentences (CHUNK_OVERLAP example_settings) [''aaa.'', ''bbbbbbb.''] = []"
    by code_simp
  have s: "suffix [''bbbbbbb.''] [''aaa.'', ''bbbbbbb.'']"
    by code_simp
  from G have "Suc 0 < length ?G" "?G ! Suc 0 = [''aaa.'', ''bbbbbbb.'']" "?G ! 0 = [''aaa.'']"
    by simp_all
  with next_chunk_starts_with_overlap [of example_settings "[]" example_page 0
      "[''aaa.'', ''bbbbbbb.'']" "[''bbbbbbb.'']"]
  have 1: "\<exists>rest. rest \<noteq> [] \<and> [''aaa.'', ''bbbbbbb.''] =
      overlap_sentences (CHUNK_OVERLAP example_settings) [''aaa.''] @ rest"
    by auto
  from o2 s next_chunk_starts_with_overlap [of example_settings "[]" example_page 0
      "[''aaa.'', ''bbbbbbb.'']" "[''bbbbbbb.'']"]
  have 2: "CHUNK_OVERLAP example_settings < int (total_length [''bbbbbbb.''])"
    by simp
  from G o1 1 o2 s 2 show ?thesis by blast
qed

section \<open>Properties of validation and of the vector store\<close>

text \<open>
  C8, as stated, fails. A capital-call table whose amount cell reads \<open>NaN\<close> parses to a
  record with a date and with the amount \<open>Decimal("NaN")\<close>, which is not \<open>None\<close>; in
  \<open>validate_and_clean_data\<close> the comparison \<open>entry['amount'] <= 0\<close> then raises
  \<open>InvalidOperation\<close>, the handler skips the entry, and the record is dropped although its
  date is present and its amount is not null.
\<close>

theorem validate_drops_nan_amount:
  "classify_table_type nan_table = Some ''capital_calls'' \<and>
   parse_capital_call_table nan_table = [nan_entry] \<and>
   truthy (dict_get nan_entry ''call_date'') \<and>
   dict_get nan_entry ''amount'' \<noteq> PyNone \<and>
   validate_and_clean_data [nan_entry] ''capital_calls'' = []"
  by code_simp

text \<open>
  C8, amended. \<open>validate_and_clean_data\<close> keeps, in their order, exactly the records whose
  date is present and whose amount is not \<open>None\<close> and, for capital calls and distributions,
  can be compared with zero; it drops the others. The comparison raises only for an amount
  that is not a number: a finite or infinite decimal of either sign is kept, a NaN is
  dropped. For capital calls and distributions the log has a warning for exactly the kept
  records whose amount is at most zero; for adjustments records of any sign are kept and
  nothing is logged.
\<close>

theorem validate_and_clean_data_keeps:
  "validate_and_clean_data data ''capital_calls'' =
     filter (\<lambda>e. truthy (dict_get e ''call_date'') \<and> dict_get e ''amount'' \<noteq> PyNone \<and>
                 pyval_le_zero (dict_get e ''amount'') \<noteq> None) data \<and>
   validate_and_clean_data data ''distributions'' =
     filter (\<lambda>e. truthy (dict_get e ''distribution_date'') \<and> dict_get e ''amount'' \<noteq> PyNone \<and>
                 pyval_le_zero (dict_get e ''amount'') \<noteq> None) data \<and>
   validate_and_clean_data data ''adjustments'' =
     filter (\<lambda>e. truthy (dict_get e ''adjustment_date'') \<and> dict_get e ''amount'' \<noteq> PyNone) data \<and>
   validation_warnings data ''capital_calls'' =
     filter (\<lambda>e. pyval_le_zero (dict_get e ''amount'') = Some True)
       (validate_and_clean_data data ''capital_calls'') \<and>
   validation_warnings data ''distributions'' =
     filter (\<lambda>e. pyval_le_zero (dict_get e ''amount'') = Some True)
       (validate_and_clean_data data ''distributions'') \<and>
   validation_warnings data ''adjustments'' = [] \<and>
   (dict_get e ''amount'' = PyDecimal (Finite sg c x) \<longrightarrow>
      pyval_le_zero (dict_get e ''amount'') = Some (sg \<or> c = 0)) \<and>
   (dict_get e ''amount'' = PyDecimal (Infinity sg) \<longrightarrow>
      pyval_le_zero (dict_get e ''amount'') = Some sg) \<and>
   (dict_get e ''amount'' = PyDecimal (NaN sg signalling payload) \<longrightarrow>
      pyval_le_zero (dict_get e ''amount'') = None)"
proof -
  have 1: "validate_and_clean_data data ''capital_calls'' =
     filter (\<lambda>e. truthy (dict_get e ''call_date'') \<and> dict_get e ''amount'' \<noteq> PyNone \<and>
                 pyval_le_zero (dict_get e ''amount'') \<noteq> None) data"
    unfolding validate_and_clean_data_def
    by (rule filter_cong) (auto simp: validate_entry_def check_amount_sign_def split: option.splits)
  have 2: "validate_and_clean_data data ''distributions'' =
     filter (\<lambda>e. truthy (dict_get e ''distribution_date'') \<and> dict_get e ''amount'' \<noteq> PyNone \<and>
                 pyval_le_zero (dict_get e ''amount'') \<noteq> None) data"
    unfolding validate_and_clean_data_def
    by (rule filter_cong) (auto simp: validate_entry_def check_amount_sign_def split: option.splits)
  have 3: "validate_and_clean_data data ''adjustments'' =
     filter (\<lambda>e. truthy (dict_get e ''adjustment_date'') \<and> dict_get e ''amount'' \<noteq> PyNone) data"
    unfolding validate_and_clean_data_def
    by (rule filter_cong) (auto simp: validate_entry_def)
  have 4: "validation_warnings data ''capital_calls'' =
     filter (\<lambda>e. pyval_le_zero (dict_get e ''amount'') = Some True)
       (validate_and_clean_data data ''capital_calls'')"
    unfolding validate_and_clean_data_def validation_warnings_def filter_filter
    by (rule filter_cong) (auto simp: validate_entry_def check_amount_sign_def split: option.splits)
  have 5: "validation_warnings data ''distributions'' =
     filter (\<lambda>e. pyval_le_zero (dict_get e ''amount'') = Some True)
       (validate_and_clean_data data ''distributions'')"
    unfolding validate_and_clean_data_def validation_warnings_def filter_filter
    by (rule filter_cong) (auto simp: validate_entry_def check_amount_sign_def split: option.splits)
  have 6: "validation_warnings data ''adjustments'' = []"
    by (simp add: validation_warnings_def validate_entry_def)
  from 1 2 3 4 5 6 show ?thesis by simp
qed

theorem validate_and_clean_data_keeps_witness:
  "dict_get refund_entry ''amount'' = PyDecimal (Finite True 50000 0) \<and>
   pyval_le_zero (dict_get refund_entry ''amount'') = Some True \<and>
   dict_get nan_entry ''amount'' = PyDecimal (NaN False False 0) \<and>
   pyval_le_zero (dict_get nan_entry ''amount'') = None \<and>
   validate_and_clean_data [refund_entry, nan_entry, undated_entry] ''capital_calls'' = [refund_entry] \<and>
   validation_warnings [refund_entry, nan_entry, undated_entry] ''capital_calls'' = [refund_entry]"
proof -
  let ?data = "[refund_entry, nan_entry, undated_entry]"
  have a: "dict_get refund_entry ''amount'' = PyDecimal (Finite True 50000 0)"
    by code_simp
  have b: "dict_get nan_entry ''amount'' = PyDecimal (NaN False False 0)"
    by code_simp
  from a validate_and_clean_data_keeps [of ?data refund_entry True 50000 0]
  have 1: "pyval_le_zero (dict_get refund_entry ''amount'') = Some True" by simp
  from b validate_and_clean_data_keeps [of ?data nan_entry False _ _ False 0]
  have 2: "pyval_le_zero (dict_get nan_entry ''amount'') = None" by blast
  have f: "filter (\<lambda>e. truthy (dict_get e ''call_date'') \<and> dict_get e ''amount'' \<noteq> PyNone \<and>
                 pyval_le_zero (dict_get e ''amount'') \<noteq> None) ?data = [refund_entry]"
    by code_simp
  have g: "filter (\<lambda>e. pyval_le_zero (dict_get e ''amount'') = Some True) [refund_entry] =
             [refund_entry]"
    by code_simp
  from validate_and_clean_data_keeps [of ?data refund_entry True 50000 0]
  have "validate_and_clean_data ?data ''capital_calls'' =
     filter (\<lambda>e. truthy (dict_get e ''call_date'') \<and> dict_get e ''amount'' \<noteq> PyNone \<and>
                 pyval_le_zero (dict_get e ''amount'') \<noteq> None) ?data"
    by blast
  then have 3: "validate_and_clean_data ?data ''capital_calls'' = [refund_entry]"
    by (simp only: f)
  from validate_and_clean_data_keeps [of ?data refund_entry True 50000 0]
  have "validation_warnings ?data ''capital_calls'' =
     filter (\<lambda>e. pyval_le_zero (dict_get e ''amount'') = Some True)
       (validate_and_clean_data ?data ''capital_calls'')"
    by blast
  then have 4: "validation_warnings ?data ''capital_calls'' = [refund_entry]"
    by (simp only: 3 g)
  from a b 1 2 3 4 show ?thesis by blast
qed




section \<open>Properties of the orchestrator\<close>


lemma set_map_filter: "set (List.map_filter f xs) = {y. \<exists>x \<in> set xs. f x = Some y}"
  by (induction xs) (auto simp: List.map_filter_simps split: option.splits)

lemma llm_calls_external_call [simp]: "llm_calls (snd (external_call env w)) = llm_calls w"
  by (simp add: external_call_def)

lemma llm_calls_db_commit [simp]: "llm_calls (snd (db_commit env w)) = llm_calls w"
  by (simp add: db_commit_def external_call_def split: option.splits)

lemma llm_calls_db_rollback [simp]: "llm_calls (db_rollback w) = llm_calls w"
  by (simp add: db_rollback_def)

lemma llm_calls_add_rows [simp]:
  "llm_calls (snd (add_rows table keys fund_id es w)) = llm_calls w"
  by (induction es arbitrary: w) (auto split: sum.splits)

lemma llm_calls_save_rows [simp]:
  "llm_calls (snd (save_rows table keys env es fund_id w)) = llm_calls w"
proof (cases "add_rows table keys fund_id es w")
  case (Pair r w')
  have "llm_calls (snd (add_rows table keys fund_id es w)) = llm_calls w" by simp
  with Pair have "llm_calls w' = llm_calls w" by simp
  with Pair show ?thesis by (cases r) (simp_all add: save_rows_def)
qed

lemma process_table_capital_calls:
  "classify_table_type t = Some ''capital_calls'' \<Longrightarrow>
   process_table env fund_id sw t =
     (case fst (save_capital_calls env
                  (validate_and_clean_data (parse_capital_call_table t) ''capital_calls'') fund_id (snd sw)) of
        Some e \<Rightarrow> (fst sw)\<lparr>errors := errors (fst sw) @ [table_error t e]\<rparr>
      | None \<Rightarrow> (fst sw)\<lparr>capital_calls := capital_calls (fst sw) +
                   length (validate_and_clean_data (parse_capital_call_table t) ''capital_calls'')\<rparr>,
      snd (save_capital_calls env
             (validate_and_clean_data (parse_capital_call_table t) ''capital_calls'') fund_id (snd sw)))"
  by (cases "save_capital_calls env
        (validate_and_clean_data (parse_capital_call_table t) ''capital_calls'') fund_id (snd sw)")
     (simp add: process_table_def Let_def split: option.splits)

lemma process_table_distributions:
  "classify_table_type t = Some ''distributions'' \<Longrightarrow>
   process_table env fund_id sw t =
     (case fst (save_distributions env
                  (validate_and_clean_data (parse_distribution_table t) ''distributions'') fund_id (snd sw)) of
        Some e \<Rightarrow> (fst sw)\<lparr>errors := errors (fst sw) @ [table_error t e]\<rparr>
      | None \<Rightarrow> (fst sw)\<lparr>distributions := distributions (fst sw) +
                   length (validate_and_clean_data (parse_distribution_table t) ''distributions'')\<rparr>,
      snd (save_distributions env
             (validate_and_clean_data (parse_distribution_table t) ''distributions'') fund_id (snd sw)))"
  by (cases "save_distributions env
        (validate_and_clean_data (parse_distribution_table t) ''distributions'') fund_id (snd sw)")
     (simp add: process_table_def Let_def split: option.splits)

lemma process_table_adjustments:
  "classify_table_type t = Some ''adjustments'' \<Longrightarrow>
   process_table env fund_id sw t =
     (case fst (save_adjustments env
                  (validate_and_clean_data (parse_adjustment_table t) ''adjustments'') fund_id (snd sw)) of
        Some e \<Rightarrow> (fst sw)\<lparr>errors := errors (fst sw) @ [table_error t e]\<rparr>
      | None \<Rightarrow> (fst sw)\<lparr>adjustments := adjustments (fst sw) +
                   length (validate_and_clean_data (parse_adjustment_table t) ''adjustments'')\<rparr>,
      snd (save_adjustments env
             (validate_and_clean_data (parse_adjustment_table t) ''adjustments'') fund_id (snd sw)))"
  by (cases "save_adjustments env
        (validate_and_clean_data (parse_adjustment_table t) ''adjustments'') fund_id (snd sw)")
     (simp add: process_table_def Let_def split: option.splits)

lemma process_table_unclassified:
  "classify_table_type t = None \<Longrightarrow> process_table env fund_id sw t = sw"
  by (simp add: process_table_def Let_def)

lemma classify_table_type_cases:
  "classify_table_type t = None \<or> classify_table_type t = Some ''capital_calls'' \<or>
   classify_table_type t = Some ''distributions'' \<or> classify_table_type t = Some ''adjustments''"
  by (simp add: classify_table_type_def Let_def)

lemma llm_calls_process_table [simp]:
  "llm_calls (snd (process_table env fund_id sw t)) = llm_calls (snd sw)"
  using classify_table_type_cases [of t]
  by (auto simp: process_table_capital_calls process_table_distributions
      process_table_adjustments process_table_unclassified
      save_capital_calls_def save_distributions_def save_adjustments_def)

lemma llm_calls_foldl_process_table [simp]:
  "llm_calls (snd (foldl (process_table env fund_id) sw ts)) = llm_calls (snd sw)"
  by (induction ts arbitrary: sw) simp_all

lemma tables_found_process_table [simp]:
  "tables_found (fst (process_table env fund_id sw t)) = tables_found (fst sw)"
  using classify_table_type_cases [of t]
  by (auto simp: process_table_capital_calls process_table_distributions
      process_table_adjustments process_table_unclassified split: option.splits)

lemma tables_found_foldl_process_table [simp]:
  "tables_found (fst (foldl (process_table env fund_id) sw ts)) = tables_found (fst sw)"
  by (induction ts arbitrary: sw) simp_all

lemma capital_calls_process_table_other:
  "classify_table_type t \<noteq> Some ''capital_calls'' \<Longrightarrow>
   capital_calls (fst (process_table env fund_id sw t)) = capital_calls (fst sw)"
  using classify_table_type_cases [of t]
  by (auto simp: process_table_distributions process_table_adjustments
      process_table_unclassified split: option.splits)

lemma distributions_process_table_other:
  "classify_table_type t \<noteq> Some ''distributions'' \<Longrightarrow>
   distributions (fst (process_table env fund_id sw t)) = distributions (fst sw)"
  using classify_table_type_cases [of t]
  by (auto simp: process_table_capital_calls process_table_adjustments
      process_table_unclassified split: option.splits)

lemma add_rows_succeeds:
  "\<forall>e \<in> set es. \<exists>vs. getitems e keys = Inr vs \<Longrightarrow>
   fst (add_rows table keys fund_id es w) = None"
  by (induction es arbitrary: w) (auto split: sum.splits)

lemma save_rows_succeeds:
  "\<forall>n. fault env n = None \<Longrightarrow> \<forall>e \<in> set es. \<exists>vs. getitems e keys = Inr vs \<Longrightarrow>
   fst (save_rows table keys env es fund_id w) = None"
proof -
  assume f: "\<forall>n. fault env n = None" and k: "\<forall>e \<in> set es. \<exists>vs. getitems e keys = Inr vs"
  from k have "fst (add_rows table keys fund_id es w) = None" by (rule add_rows_succeeds)
  then obtain w' where "add_rows table keys fund_id es w = (None, w')"
    by (cases "add_rows table keys fund_id es w") auto
  with f show ?thesis
    by (simp add: save_rows_def db_commit_def external_call_def)
qed

lemma capital_call_entry_keys:
  "getitems [(''call_date'', a), (''call_type'', b), (''amount'', c), (''description'', d)]
     [''call_date'', ''call_type'', ''amount'', ''description''] = Inr [a, b, c, d]"
  by (simp add: getitem_def)

lemma parse_capital_call_row_shape:
  "parse_capital_call_row di ai ti dsi row = Some e \<Longrightarrow>
   \<exists>a b c d. e = [(''call_date'', a), (''call_type'', b), (''amount'', c), (''description'', d)]"
  unfolding parse_capital_call_row_def
  by (auto split: if_splits option.splits)

lemma parse_capital_call_row_keys:
  "parse_capital_call_row di ai ti dsi row = Some e \<Longrightarrow>
   \<exists>vs. getitems e [''call_date'', ''call_type'', ''amount'', ''description''] = Inr vs"
  using parse_capital_call_row_shape [of di ai ti dsi row e] capital_call_entry_keys
  by metis

lemma parse_capital_call_table_keys:
  "e \<in> set (validate_and_clean_data (parse_capital_call_table t) table_type) \<Longrightarrow>
   \<exists>vs. getitems e [''call_date'', ''call_type'', ''amount'', ''description''] = Inr vs"
  using parse_capital_call_row_keys
  by (auto simp: validate_and_clean_data_def parse_capital_call_table_def Let_def set_map_filter)

lemma capital_calls_process_table:
  "\<forall>n. fault env n = None \<Longrightarrow> classify_table_type t = Some ''capital_calls'' \<Longrightarrow>
   capital_calls (fst (process_table env fund_id sw t)) =
     capital_calls (fst sw) +
     length (validate_and_clean_data (parse_capital_call_table t) ''capital_calls'')"
proof -
  assume f: "\<forall>n. fault env n = None" and c: "classify_table_type t = Some ''capital_calls''"
  have "fst (save_capital_calls env
               (validate_and_clean_data (parse_capital_call_table t) ''capital_calls'') fund_id (snd sw)) = None"
    unfolding save_capital_calls_def
    using f parse_capital_call_table_keys by (intro save_rows_succeeds) blast+
  with c show ?thesis by (simp add: process_table_capital_calls)
qed

lemma foldl_process_table_counts:
  "\<forall>n. fault env n = None \<Longrightarrow>
   filter (\<lambda>t. classify_table_type t = Some ''distributions'') ts = [] \<Longrightarrow>
   capital_calls (fst (foldl (process_table env fund_id) sw ts)) =
     capital_calls (fst sw) +
     sum_list (map (\<lambda>t. length (validate_and_clean_data (parse_capital_call_table t) ''capital_calls''))
                (filter (\<lambda>t. classify_table_type t = Some ''capital_calls'') ts)) \<and>
   distributions (fst (foldl (process_table env fund_id) sw ts)) = distributions (fst sw)"
proof (induction ts arbitrary: sw)
  case Nil
  then show ?case by simp
next
  case (Cons t ts)
  from Cons.prems(2) have nd: "classify_table_type t \<noteq> Some ''distributions''"
    and rest: "filter (\<lambda>t. classify_table_type t = Some ''distributions'') ts = []"
    by (auto split: if_splits)
  note IH = Cons.IH [OF Cons.prems(1) rest, of "process_table env fund_id sw t"]
  show ?case
  proof (cases "classify_table_type t = Some ''capital_calls''")
    case True
    with IH capital_calls_process_table [OF Cons.prems(1) True, of fund_id sw]
      distributions_process_table_other [OF nd, of env fund_id sw]
    show ?thesis by simp
  next
    case False
    with IH capital_calls_process_table_other [OF False, of env fund_id sw]
      distributions_process_table_other [OF nd, of env fund_id sw]
    show ?thesis by simp
  qed
qed

lemma llm_calls_add_document [simp]:
  "llm_calls (snd (add_document env content metadata w)) = llm_calls w"
  by (auto simp: add_document_def add_document_try_def get_embedding_def external_call_def
      db_commit_def db_rollback_def Let_def split: option.splits)

lemma llm_calls_store_chunks [simp]:
  "llm_calls (snd (store_chunks env file_path document_id fund_id cs w)) = llm_calls w"
proof (induction cs arbitrary: w)
  case Nil
  then show ?case by simp
next
  case (Cons c cs)
  show ?case
  proof (cases "add_document env (c_text c) (chunk_metadata file_path document_id fund_id c) w")
    case (Pair r w')
    have "llm_calls (snd (add_document env (c_text c)
            (chunk_metadata file_path document_id fund_id c) w)) = llm_calls w"
      by simp
    with Pair have "llm_calls w' = llm_calls w" by simp
    with Pair Cons.IH [of w'] show ?thesis by (cases r) simp_all
  qed
qed

lemma llm_calls_update_document_status [simp]:
  "llm_calls (update_document_status env doc_id status err w) = llm_calls w"
  by (auto simp: update_document_status_def external_call_def db_commit_def db_rollback_def
      split: option.splits)

lemma index_text_frame:
  "llm_calls (snd (snd (index_text env file_path document_id fund_id st w))) = llm_calls w \<and>
   capital_calls (fst (snd (index_text env file_path document_id fund_id st w))) = capital_calls st \<and>
   distributions (fst (snd (index_text env file_path document_id fund_id st w))) = distributions st \<and>
   adjustments (fst (snd (index_text env file_path document_id fund_id st w))) = adjustments st \<and>
   tables_found (fst (snd (index_text env file_path document_id fund_id st w))) = tables_found st \<and>
   errors (fst (snd (index_text env file_path document_id fund_id st w))) = errors st"
proof (cases "extract_text_content env w")
  case (Pair r w4)
  have "llm_calls (snd (extract_text_content env w)) = llm_calls w"
    by (simp add: extract_text_content_def external_call_def split: option.splits)
  with Pair have w4: "llm_calls w4 = llm_calls w" by simp
  show ?thesis
  proof (cases r)
    case (Inl e)
    with Pair w4 show ?thesis by (simp add: index_text_def)
  next
    case (Inr text_content)
    let ?cs = "chunk_text (settings env) text_content"
    obtain raised w5 where sc: "store_chunks env file_path document_id fund_id ?cs w4 = (raised, w5)"
      by (cases "store_chunks env file_path document_id fund_id ?cs w4")
    have "llm_calls (snd (store_chunks env file_path document_id fund_id ?cs w4)) = llm_calls w4"
      by simp
    with sc have "llm_calls w5 = llm_calls w4" by simp
    with Pair Inr sc w4 show ?thesis by (simp add: index_text_def Let_def)
  qed
qed

lemma add_document_succeeds:
  "\<forall>n. fault env n = None \<Longrightarrow> \<not> isl (fst (add_document env content metadata w))"
  by (simp add: add_document_def add_document_try_def get_embedding_def external_call_def
      db_commit_def Let_def)

lemma store_chunks_succeeds:
  "\<forall>n. fault env n = None \<Longrightarrow>
   fst (store_chunks env file_path document_id fund_id cs w) = None"
proof (induction cs arbitrary: w)
  case Nil
  then show ?case by simp
next
  case (Cons c cs)
  obtain r w' where
    p: "add_document env (c_text c) (chunk_metadata file_path document_id fund_id c) w = (r, w')"
    by (cases "add_document env (c_text c) (chunk_metadata file_path document_id fund_id c) w")
  with add_document_succeeds [OF Cons.prems, of "c_text c"
      "chunk_metadata file_path document_id fund_id c" w]
  have "\<not> isl r" by simp
  then obtain doc_id where "r = Inr doc_id" by (cases r) simp_all
  with p Cons.IH [OF Cons.prems, of w'] show ?case by simp
qed

lemma index_text_succeeds:
  "\<forall>n. fault env n = None \<Longrightarrow>
   fst (index_text env file_path document_id fund_id st w) = None"
proof -
  assume f: "\<forall>n. fault env n = None"
  then obtain text_content w4 where e: "extract_text_content env w = (Inr text_content, w4)"
    by (simp add: extract_text_content_def external_call_def)
  let ?cs = "chunk_text (settings env) text_content"
  obtain raised w5 where sc: "store_chunks env file_path document_id fund_id ?cs w4 = (raised, w5)"
    by (cases "store_chunks env file_path document_id fund_id ?cs w4")
  with store_chunks_succeeds [OF f, of file_path document_id fund_id ?cs w4]
  have "raised = None" by simp
  with e sc show ?thesis by (simp add: index_text_def Let_def)
qed

lemma process_tables_with_capital_calls:
  assumes f: "\<forall>n. fault env n = None"
    and c: "filter (\<lambda>t. classify_table_type t = Some ''capital_calls'') (tables_of_pdf (pdf env)) = [t]"
    and v: "length (validate_and_clean_data (parse_capital_call_table t) ''capital_calls'') = 2"
    and d: "filter (\<lambda>t. classify_table_type t = Some ''distributions'') (tables_of_pdf (pdf env)) = []"
  shows "fst (process_tables env fund_id w) = None \<and>
         capital_calls (fst (snd (process_tables env fund_id w))) = 2 \<and>
         distributions (fst (snd (process_tables env fund_id w))) = 0 \<and>
         llm_calls (snd (snd (process_tables env fund_id w))) = llm_calls w"
proof -
  let ?T = "tables_of_pdf (pdf env)"
  let ?w1 = "w\<lparr>clock := Suc (clock w)\<rparr>"
  let ?sw0 = "(initial_stats\<lparr>tables_found := length ?T\<rparr>, ?w1)"
  let ?sw2 = "foldl (process_table env fund_id) ?sw0 ?T"
  from f have e: "extract_tables_from_pdf env w = (Inr ?T, ?w1)"
    by (simp add: extract_tables_from_pdf_def external_call_def)
  from foldl_process_table_counts [OF f d, of fund_id ?sw0] c v
  have counts: "capital_calls (fst ?sw2) = 2" "distributions (fst ?sw2) = 0"
    by (simp_all add: initial_stats_def)
  have l: "llm_calls (snd ?sw2) = llm_calls w" by simp
  have "\<not> (tables_found (fst ?sw2) = 0 \<or> (capital_calls (fst ?sw2) = 0 \<and> distributions (fst ?sw2) = 0))"
    using counts c by auto
  with e have "process_tables env fund_id w = (None, fst ?sw2, snd ?sw2)"
    by (simp only: process_tables_def Let_def prod.case sum.case if_False fst_conv snd_conv)
  with counts l show ?thesis by simp
qed

text \<open>
  C1, as stated, fails. The file has two pages and one table, a capital-call table with two
  valid rows, and every collaborator works. The run counts two capital calls and no
  distribution, and \<open>extract_data_from_text\<close> is not called at all: the fallback runs only
  when no table was found or both counts are zero, and the count of capital calls is two.
\<close>

theorem fallback_not_invoked_after_capital_calls:
  "length (pdf working_env) = 2 \<and>
   tables_of_pdf (pdf working_env) = [call_table_info] \<and>
   classify_table_type call_table_info = Some ''capital_calls'' \<and>
   length (validate_and_clean_data (parse_capital_call_table call_table_info) ''capital_calls'') = 2 \<and>
   capital_calls (result_stats (fst (process_document working_env ''report.pdf'' 7 3 fresh_world))) = 2 \<and>
   distributions (result_stats (fst (process_document working_env ''report.pdf'' 7 3 fresh_world))) = 0 \<and>
   llm_calls fresh_world = 0 \<and>
   llm_calls (snd (process_document working_env ''report.pdf'' 7 3 fresh_world)) = 0"
  by code_simp

text \<open>
  C1, amended. When every collaborator works and the tables of the file hold exactly one
  capital-call table, with two valid rows, and no distribution table, the run succeeds with
  two capital calls and no distribution in its statistics, and the fallback
  \<open>extract_data_from_text\<close> is not invoked: the number of its calls is unchanged.
\<close>

theorem capital_call_table_skips_fallback:
  "(\<forall>n. fault env n = None) \<and>
   filter (\<lambda>t. classify_table_type t = Some ''capital_calls'') (tables_of_pdf (pdf env)) = [t] \<and>
   length (validate_and_clean_data (parse_capital_call_table t) ''capital_calls'') = 2 \<and>
   filter (\<lambda>t. classify_table_type t = Some ''distributions'') (tables_of_pdf (pdf env)) = [] \<longrightarrow>
     success (fst (process_document env file_path document_id fund_id w)) \<and>
     capital_calls (result_stats (fst (process_document env file_path document_id fund_id w))) = 2 \<and>
     distributions (result_stats (fst (process_document env file_path document_id fund_id w))) = 0 \<and>
     llm_calls (snd (process_document env file_path document_id fund_id w)) = llm_calls w"
proof
  assume a: "(\<forall>n. fault env n = None) \<and>
   filter (\<lambda>t. classify_table_type t = Some ''capital_calls'') (tables_of_pdf (pdf env)) = [t] \<and>
   length (validate_and_clean_data (parse_capital_call_table t) ''capital_calls'') = 2 \<and>
   filter (\<lambda>t. classify_table_type t = Some ''distributions'') (tables_of_pdf (pdf env)) = []"
  then have f: "\<forall>n. fault env n = None" by blast
  from a have p: "fst (process_tables env fund_id w) = None \<and>
         capital_calls (fst (snd (process_tables env fund_id w))) = 2 \<and>
         distributions (fst (snd (process_tables env fund_id w))) = 0 \<and>
         llm_calls (snd (snd (process_tables env fund_id w))) = llm_calls w"
    by (intro process_tables_with_capital_calls) blast+
  obtain r3 st3 w3 where pt0: "process_tables env fund_id w = (r3, st3, w3)"
    by (cases "process_tables env fund_id w")
  with p have pt: "process_tables env fund_id w = (None, st3, w3)"
    and st3: "capital_calls st3 = 2" "distributions st3 = 0" and w3: "llm_calls w3 = llm_calls w"
    by simp_all
  obtain r5 st5 w5 where it0: "index_text env file_path document_id fund_id st3 w3 = (r5, st5, w5)"
    by (cases "index_text env file_path document_id fund_id st3 w3")
  with index_text_succeeds [OF f, of file_path document_id fund_id st3 w3]
  have it: "index_text env file_path document_id fund_id st3 w3 = (None, st5, w5)"
    by simp
  from index_text_frame [of env file_path document_id fund_id st3 w3] it st3 w3
  have "capital_calls st5 = 2" "distributions st5 = 0" "llm_calls w5 = llm_calls w"
    by simp_all
  moreover from pt it have "process_steps env file_path document_id fund_id w = (None, st5, w5)"
    by (simp add: process_steps_def)
  ultimately show "success (fst (process_document env file_path document_id fund_id w)) \<and>
     capital_calls (result_stats (fst (process_document env file_path document_id fund_id w))) = 2 \<and>
     distributions (result_stats (fst (process_document env file_path document_id fund_id w))) = 0 \<and>
     llm_calls (snd (process_document env file_path document_id fund_id w)) = llm_calls w"
    by (simp add: process_document_def)
qed

theorem capital_call_table_skips_fallback_witness:
  "(\<forall>n. fault working_env n = None) \<and>
   filter (\<lambda>t. classify_table_type t = Some ''capital_calls'') (tables_of_pdf (pdf working_env)) =
     [call_table_info] \<and>
   length (validate_and_clean_data (parse_capital_call_table call_table_info) ''capital_calls'') = 2 \<and>
   filter (\<lambda>t. classify_table_type t = Some ''distributions'') (tables_of_pdf (pdf working_env)) = [] \<and>
   success (fst (process_document working_env ''report.pdf'' 7 3 fresh_world)) \<and>
   capital_calls (result_stats (fst (process_document working_env ''report.pdf'' 7 3 fresh_world))) = 2 \<and>
   distributions (result_stats (fst (process_document working_env ''report.pdf'' 7 3 fresh_world))) = 0 \<and>
   llm_calls (snd (process_document working_env ''report.pdf'' 7 3 fresh_world)) = llm_calls fresh_world"
proof -
  have f: "\<forall>n. fault working_env n = None"
    by (simp add: working_env_def)
  have c: "filter (\<lambda>t. classify_table_type t = Some ''capital_calls'') (tables_of_pdf (pdf working_env)) =
     [call_table_info]"
    by code_simp
  have v: "length (validate_and_clean_data (parse_capital_call_table call_table_info) ''capital_calls'') = 2"
    by code_simp
  have d: "filter (\<lambda>t. classify_table_type t = Some ''distributions'') (tables_of_pdf (pdf working_env)) = []"
    by code_simp
  from f c v d
    capital_call_table_skips_fallback [of working_env call_table_info "''report.pdf''" 7 3 fresh_world]
  show ?thesis by blast
qed

text \<open>
  C2, as stated, fails. The file is read, chunked and stored without an exception, but the
  lookup of the document in \<open>_update_document_status\<close> raises: the handler there logs the
  exception and rolls back, \<open>process_document\<close> returns success with no error, and the status
  of the document is still \<open>processing\<close>, not \<open>completed\<close>.
\<close>

theorem status_update_swallows_failure:
  "fst (process_steps lost_connection ''report.pdf'' 7 3 fresh_world) = None \<and>
   clock (snd (snd (process_steps lost_connection ''report.pdf'' 7 3 fresh_world))) = 5 \<and>
   success (fst (process_document lost_connection ''report.pdf'' 7 3 fresh_world)) \<and>
   error (fst (process_document lost_connection ''report.pdf'' 7 3 fresh_world)) = None \<and>
   documents fresh_world 7 = Some \<lparr>parsing_status = ''processing'', error_message = None\<rparr> \<and>
   documents (snd (process_document lost_connection ''report.pdf'' 7 3 fresh_world)) 7 =
     Some \<lparr>parsing_status = ''processing'', error_message = None\<rparr>"
  by code_simp

lemma documents_external_call [simp]: "documents (snd (external_call env w)) = documents w"
  by (simp add: external_call_def)

lemma documents_db_commit [simp]: "documents (snd (db_commit env w)) = documents w"
  by (simp add: db_commit_def external_call_def split: option.splits)

lemma documents_db_rollback [simp]: "documents (db_rollback w) = documents w"
  by (simp add: db_rollback_def)

lemma documents_add_rows [simp]:
  "documents (snd (add_rows table keys fund_id es w)) = documents w"
  by (induction es arbitrary: w) (auto split: sum.splits)

lemma documents_save_rows [simp]:
  "documents (snd (save_rows table keys env es fund_id w)) = documents w"
proof (cases "add_rows table keys fund_id es w")
  case (Pair r w')
  have "documents (snd (add_rows table keys fund_id es w)) = documents w" by simp
  with Pair have "documents w' = documents w" by simp
  with Pair show ?thesis by (cases r) (simp_all add: save_rows_def)
qed

lemma documents_process_table [simp]:
  "documents (snd (process_table env fund_id sw t)) = documents (snd sw)"
  using classify_table_type_cases [of t]
  by (auto simp: process_table_capital_calls process_table_distributions
      process_table_adjustments process_table_unclassified
      save_capital_calls_def save_distributions_def save_adjustments_def)

lemma documents_foldl_process_table [simp]:
  "documents (snd (foldl (process_table env fund_id) sw ts)) = documents (snd sw)"
  by (induction ts arbitrary: sw) simp_all

lemma documents_extract_data_from_text [simp]:
  "documents (snd (extract_data_from_text env w)) = documents w"
  by (simp add: extract_data_from_text_def Let_def external_call_def split: option.splits prod.splits)

lemma documents_llm_fallback [simp]:
  "documents (snd (llm_fallback env fund_id st w)) = documents w"
proof -
  obtain llm_data w1 where x: "extract_data_from_text env w = (llm_data, w1)"
    by (cases "extract_data_from_text env w")
  have "documents (snd (extract_data_from_text env w)) = documents w" by simp
  with x have w1: "documents w1 = documents w" by simp
  let ?vc = "validate_and_clean_data (fst llm_data) ''capital_calls''"
  let ?vd = "validate_and_clean_data (snd llm_data) ''distributions''"
  obtain r1 w2 where s1: "(if fst llm_data \<noteq> [] then save_capital_calls env ?vc fund_id w1
                           else (None, w1)) = (r1, w2)"
    by (cases "(if fst llm_data \<noteq> [] then save_capital_calls env ?vc fund_id w1 else (None, w1))")
  have "documents (snd (if fst llm_data \<noteq> [] then save_capital_calls env ?vc fund_id w1
                           else (None, w1))) = documents w1"
    by (simp add: save_capital_calls_def)
  with s1 have w2: "documents w2 = documents w1" by simp
  obtain r2 w3 where s2: "save_distributions env ?vd fund_id w2 = (r2, w3)"
    by (cases "save_distributions env ?vd fund_id w2")
  have "documents (snd (save_distributions env ?vd fund_id w2)) = documents w2"
    by (simp add: save_distributions_def)
  with s2 have w3: "documents w3 = documents w2" by simp
  from x s1 s2 w1 w2 w3 show ?thesis
    by (simp add: llm_fallback_def Let_def split: option.splits)
qed

lemma documents_process_tables [simp]:
  "documents (snd (snd (process_tables env fund_id w))) = documents w"
proof (cases "extract_tables_from_pdf env w")
  case (Pair r w1)
  have "documents (snd (extract_tables_from_pdf env w)) = documents w"
    by (simp add: extract_tables_from_pdf_def external_call_def split: option.splits)
  with Pair have w1: "documents w1 = documents w" by simp
  with Pair show ?thesis
    by (cases r) (simp_all add: process_tables_def Let_def)
qed

lemma documents_add_document [simp]:
  "documents (snd (add_document env content metadata w)) = documents w"
  by (auto simp: add_document_def add_document_try_def get_embedding_def external_call_def
      db_commit_def db_rollback_def Let_def split: option.splits)

lemma documents_store_chunks [simp]:
  "documents (snd (store_chunks env file_path document_id fund_id cs w)) = documents w"
proof (induction cs arbitrary: w)
  case Nil
  then show ?case by simp
next
  case (Cons c cs)
  show ?case
  proof (cases "add_document env (c_text c) (chunk_metadata file_path document_id fund_id c) w")
    case (Pair r w')
    have "documents (snd (add_document env (c_text c)
            (chunk_metadata file_path document_id fund_id c) w)) = documents w"
      by simp
    with Pair have "documents w' = documents w" by simp
    with Pair Cons.IH [of w'] show ?thesis by (cases r) simp_all
  qed
qed

lemma documents_extract_text_content [simp]:
  "documents (snd (extract_text_content env w)) = documents w"
  by (simp add: extract_text_content_def external_call_def split: option.splits)

text \<open>The second part of the steps: the exception that leaves it and the statistics at that
  moment.\<close>

lemma index_text_raises:
  "fst (extract_text_content env w) = Inl e \<Longrightarrow>
   fst (index_text env file_path document_id fund_id st w) = Some e \<and>
   fst (snd (index_text env file_path document_id fund_id st w)) = st"
  by (cases "extract_text_content env w") (simp add: index_text_def)

lemma index_text_stores:
  "fst (extract_text_content env w) = Inr tc \<Longrightarrow>
   fst (index_text env file_path document_id fund_id st w) =
     fst (store_chunks env file_path document_id fund_id (chunk_text (settings env) tc)
            (snd (extract_text_content env w))) \<and>
   fst (snd (index_text env file_path document_id fund_id st w)) =
     st\<lparr>pages_processed := length tc, text_chunks := length (chunk_text (settings env) tc)\<rparr>"
proof -
  assume a: "fst (extract_text_content env w) = Inr tc"
  obtain r w4 where x: "extract_text_content env w = (r, w4)"
    by (cases "extract_text_content env w")
  with a have x': "extract_text_content env w = (Inr tc, w4)" by simp
  obtain raised w5 where sc:
    "store_chunks env file_path document_id fund_id (chunk_text (settings env) tc) w4 = (raised, w5)"
    by (cases "store_chunks env file_path document_id fund_id (chunk_text (settings env) tc) w4")
  from x' sc show ?thesis by (simp add: index_text_def Let_def)
qed

lemma documents_index_text [simp]:
  "documents (snd (snd (index_text env file_path document_id fund_id st w))) = documents w"
proof (cases "extract_text_content env w")
  case (Pair r w4)
  have "documents (snd (extract_text_content env w)) = documents w" by simp
  with Pair have w4: "documents w4 = documents w" by simp
  show ?thesis
  proof (cases r)
    case (Inl e)
    with Pair w4 show ?thesis by (simp add: index_text_def)
  next
    case (Inr text_content)
    let ?cs = "chunk_text (settings env) text_content"
    obtain raised w5 where sc: "store_chunks env file_path document_id fund_id ?cs w4 = (raised, w5)"
      by (cases "store_chunks env file_path document_id fund_id ?cs w4")
    have "documents (snd (store_chunks env file_path document_id fund_id ?cs w4)) = documents w4"
      by simp
    with sc have "documents w5 = documents w4" by simp
    with Pair Inr sc w4 show ?thesis by (simp add: index_text_def Let_def)
  qed
qed

lemma documents_process_steps:
  "documents (snd (snd (process_steps env file_path document_id fund_id w))) = documents w"
proof -
  obtain r st3 w3 where pt: "process_tables env fund_id w = (r, st3, w3)"
    by (cases "process_tables env fund_id w") auto
  have "documents (snd (snd (process_tables env fund_id w))) = documents w" by simp
  with pt have w3: "documents w3 = documents w" by simp
  have "documents (snd (snd (index_text env file_path document_id fund_id st3 w3))) = documents w3"
    by simp
  with pt w3 show ?thesis by (cases r) (simp_all add: process_steps_def)
qed

lemma process_tables_raises:
  "fst (extract_tables_from_pdf env w) = Inl e \<Longrightarrow>
   fst (process_tables env fund_id w) = Some e \<and>
   fst (snd (process_tables env fund_id w)) = initial_stats"
  by (cases "extract_tables_from_pdf env w") (simp add: process_tables_def)

lemma tables_found_llm_fallback:
  "tables_found (fst (llm_fallback env fund_id st w)) = tables_found st"
  by (simp add: llm_fallback_def Let_def split: prod.splits option.splits)

lemma process_tables_returns:
  "fst (extract_tables_from_pdf env w) = Inr tbls \<Longrightarrow>
   fst (process_tables env fund_id w) = None \<and>
   tables_found (fst (snd (process_tables env fund_id w))) = length tbls"
proof -
  assume a: "fst (extract_tables_from_pdf env w) = Inr tbls"
  obtain r w1 where x: "extract_tables_from_pdf env w = (r, w1)"
    by (cases "extract_tables_from_pdf env w")
  with a have x': "extract_tables_from_pdf env w = (Inr tbls, w1)" by simp
  then show ?thesis
    by (simp add: process_tables_def Let_def tables_found_llm_fallback)
qed

lemma process_steps_tables_raise:
  "fst (process_tables env fund_id w) = Some e \<Longrightarrow>
   fst (process_steps env file_path document_id fund_id w) = Some e \<and>
   fst (snd (process_steps env file_path document_id fund_id w)) =
     fst (snd (process_tables env fund_id w))"
  by (cases "process_tables env fund_id w") (auto simp: process_steps_def)

lemma process_steps_tables_return:
  "fst (process_tables env fund_id w) = None \<Longrightarrow>
   process_steps env file_path document_id fund_id w =
     index_text env file_path document_id fund_id (fst (snd (process_tables env fund_id w)))
       (snd (snd (process_tables env fund_id w)))"
  by (cases "process_tables env fund_id w") (auto simp: process_steps_def)

text \<open>The update of the status: what is stored, and when.\<close>

lemma update_document_status_stores:
  "fault env (clock w) = None \<Longrightarrow> documents w doc_id = Some d \<Longrightarrow>
   fault env (Suc (clock w)) = None \<Longrightarrow>
   documents (update_document_status env doc_id status err w) =
     (documents w)(doc_id \<mapsto> d\<lparr>parsing_status := status, error_message := err\<rparr>)"
  by (simp add: update_document_status_def external_call_def db_commit_def)

lemma update_document_status_swallows:
  "fault env (clock w) \<noteq> None \<or> documents w doc_id = None \<or> fault env (Suc (clock w)) \<noteq> None \<Longrightarrow>
   documents (update_document_status env doc_id status err w) = documents w"
  by (auto simp: update_document_status_def external_call_def db_commit_def db_rollback_def
      split: option.splits)

text \<open>
  C2, amended. \<open>process_document\<close> returns success exactly when no exception leaves its steps,
  and then calls the status update with \<open>completed\<close> and no error message; when an exception
  leaves them it returns failure with the error
  \<open>Fatal error processing document <path>: <message of the exception>\<close> and calls the status
  update with \<open>failed\<close> and that error. The statistics of the result are those reached when
  the exception was raised, with the error added to their errors: all counters zero when the
  file cannot be read for its tables, the statistics of the table phase when it cannot be read
  for its text, and those with the count of pages and the count of chunks set when a chunk
  cannot be stored. The steps never change the stored documents. The status update stores the
  status and the message in the row of the document, and changes nothing else, when its lookup
  succeeds, the row exists and its commit succeeds; when the lookup or the commit raises, or
  the row is missing, the stored documents are what they were before the run.
\<close>

theorem process_document_status_and_stats:
  "fatal_error file_path e = ''Fatal error processing document '' @ file_path @ '': '' @ message e \<and>
   (fst (process_steps env file_path document_id fund_id w) = None \<longrightarrow>
      fst (process_document env file_path document_id fund_id w) =
        \<lparr>success = True,
         result_stats = fst (snd (process_steps env file_path document_id fund_id w)),
         error = None\<rparr> \<and>
      snd (process_document env file_path document_id fund_id w) =
        update_document_status env document_id ''completed'' None
          (snd (snd (process_steps env file_path document_id fund_id w)))) \<and>
   (fst (process_steps env file_path document_id fund_id w) = Some e \<longrightarrow>
      fst (process_document env file_path document_id fund_id w) =
        \<lparr>success = False,
         result_stats = (fst (snd (process_steps env file_path document_id fund_id w)))
           \<lparr>errors := errors (fst (snd (process_steps env file_path document_id fund_id w))) @
                       [fatal_error file_path e]\<rparr>,
         error = Some (fatal_error file_path e)\<rparr> \<and>
      snd (process_document env file_path document_id fund_id w) =
        update_document_status env document_id ''failed'' (Some (fatal_error file_path e))
          (snd (snd (process_steps env file_path document_id fund_id w)))) \<and>
   (fst (extract_tables_from_pdf env w) = Inl e \<longrightarrow>
      fst (process_steps env file_path document_id fund_id w) = Some e \<and>
      fst (snd (process_steps env file_path document_id fund_id w)) = initial_stats) \<and>
   (fst (extract_tables_from_pdf env w) = Inr tbls \<longrightarrow>
      fst (process_tables env fund_id w) = None \<and>
      tables_found (fst (snd (process_tables env fund_id w))) = length tbls) \<and>
   (fst (process_tables env fund_id w) = None \<and>
    fst (extract_text_content env (snd (snd (process_tables env fund_id w)))) = Inl e \<longrightarrow>
      fst (process_steps env file_path document_id fund_id w) = Some e \<and>
      fst (snd (process_steps env file_path document_id fund_id w)) =
        fst (snd (process_tables env fund_id w))) \<and>
   (fst (process_tables env fund_id w) = None \<and>
    fst (extract_text_content env (snd (snd (process_tables env fund_id w)))) = Inr tc \<longrightarrow>
      fst (process_steps env file_path document_id fund_id w) =
        fst (store_chunks env file_path document_id fund_id (chunk_text (settings env) tc)
               (snd (extract_text_content env (snd (snd (process_tables env fund_id w)))))) \<and>
      fst (snd (process_steps env file_path document_id fund_id w)) =
        (fst (snd (process_tables env fund_id w)))
          \<lparr>pages_processed := length tc,
           text_chunks := length (chunk_text (settings env) tc)\<rparr>) \<and>
   documents (snd (snd (process_steps env file_path document_id fund_id w))) = documents w \<and>
   (fst (process_steps env file_path document_id fund_id w) = None \<and>
    fault env (clock (snd (snd (process_steps env file_path document_id fund_id w)))) = None \<and>
    documents w document_id = Some d \<and>
    fault env (Suc (clock (snd (snd (process_steps env file_path document_id fund_id w))))) = None \<longrightarrow>
      documents (snd (process_document env file_path document_id fund_id w)) =
        (documents w)(document_id \<mapsto> d\<lparr>parsing_status := ''completed'', error_message := None\<rparr>)) \<and>
   (fst (process_steps env file_path document_id fund_id w) = Some e \<and>
    fault env (clock (snd (snd (process_steps env file_path document_id fund_id w)))) = None \<and>
    documents w document_id = Some d \<and>
    fault env (Suc (clock (snd (snd (process_steps env file_path document_id fund_id w))))) = None \<longrightarrow>
      documents (snd (process_document env file_path document_id fund_id w)) =
        (documents w)(document_id \<mapsto>
           d\<lparr>parsing_status := ''failed'', error_message := Some (fatal_error file_path e)\<rparr>)) \<and>
   (fault env (clock (snd (snd (process_steps env file_path document_id fund_id w)))) \<noteq> None \<or>
    documents w document_id = None \<or>
    fault env (Suc (clock (snd (snd (process_steps env file_path document_id fund_id w))))) \<noteq> None \<longrightarrow>
      documents (snd (process_document env file_path document_id fund_id w)) = documents w)"
proof -
  let ?ps = "process_steps env file_path document_id fund_id w"
  let ?pd = "process_document env file_path document_id fund_id w"
  let ?pt = "process_tables env fund_id w"
  obtain r st w1 where ps: "?ps = (r, st, w1)"
    by (cases ?ps)
  have dw: "documents (snd (snd ?ps)) = documents w"
    by (rule documents_process_steps)
  have 0: "fatal_error file_path e =
             ''Fatal error processing document '' @ file_path @ '': '' @ message e"
    by (simp add: fatal_error_def)
  have 1: "fst ?ps = None \<longrightarrow>
      fst ?pd = \<lparr>success = True, result_stats = fst (snd ?ps), error = None\<rparr> \<and>
      snd ?pd = update_document_status env document_id ''completed'' None (snd (snd ?ps))"
    using ps by (simp add: process_document_def)
  have 2: "fst ?ps = Some e \<longrightarrow>
      fst ?pd = \<lparr>success = False,
         result_stats = (fst (snd ?ps))\<lparr>errors := errors (fst (snd ?ps)) @ [fatal_error file_path e]\<rparr>,
         error = Some (fatal_error file_path e)\<rparr> \<and>
      snd ?pd = update_document_status env document_id ''failed'' (Some (fatal_error file_path e))
          (snd (snd ?ps))"
    using ps by (simp add: process_document_def)
  have 3: "fst (extract_tables_from_pdf env w) = Inl e \<longrightarrow>
      fst ?ps = Some e \<and> fst (snd ?ps) = initial_stats"
    using process_tables_raises [of env w e fund_id]
      process_steps_tables_raise [of env fund_id w e file_path document_id]
    by simp
  have 4: "fst (extract_tables_from_pdf env w) = Inr tbls \<longrightarrow>
      fst ?pt = None \<and> tables_found (fst (snd ?pt)) = length tbls"
    using process_tables_returns [of env w tbls fund_id] by blast
  have 5: "fst ?pt = None \<and> fst (extract_text_content env (snd (snd ?pt))) = Inl e \<longrightarrow>
      fst ?ps = Some e \<and> fst (snd ?ps) = fst (snd ?pt)"
    using process_steps_tables_return [of env fund_id w file_path document_id]
      index_text_raises [of env "snd (snd ?pt)" e file_path document_id fund_id "fst (snd ?pt)"]
    by simp
  have 6: "fst ?pt = None \<and> fst (extract_text_content env (snd (snd ?pt))) = Inr tc \<longrightarrow>
      fst ?ps =
        fst (store_chunks env file_path document_id fund_id (chunk_text (settings env) tc)
               (snd (extract_text_content env (snd (snd ?pt))))) \<and>
      fst (snd ?ps) =
        (fst (snd ?pt))\<lparr>pages_processed := length tc,
                         text_chunks := length (chunk_text (settings env) tc)\<rparr>"
    using process_steps_tables_return [of env fund_id w file_path document_id]
      index_text_stores [of env "snd (snd ?pt)" tc file_path document_id fund_id "fst (snd ?pt)"]
    by simp
  have 7: "fst ?ps = None \<and> fault env (clock (snd (snd ?ps))) = None \<and>
    documents w document_id = Some d \<and> fault env (Suc (clock (snd (snd ?ps)))) = None \<longrightarrow>
      documents (snd ?pd) =
        (documents w)(document_id \<mapsto> d\<lparr>parsing_status := ''completed'', error_message := None\<rparr>)"
    using 1 dw
      update_document_status_stores [of env "snd (snd ?ps)" document_id d "''completed''" None]
    by simp
  have 8: "fst ?ps = Some e \<and> fault env (clock (snd (snd ?ps))) = None \<and>
    documents w document_id = Some d \<and> fault env (Suc (clock (snd (snd ?ps)))) = None \<longrightarrow>
      documents (snd ?pd) =
        (documents w)(document_id \<mapsto>
           d\<lparr>parsing_status := ''failed'', error_message := Some (fatal_error file_path e)\<rparr>)"
    using 2 dw
      update_document_status_stores [of env "snd (snd ?ps)" document_id d "''failed''"
        "Some (fatal_error file_path e)"]
    by simp
  have 9: "fault env (clock (snd (snd ?ps))) \<noteq> None \<or> documents w document_id = None \<or>
    fault env (Suc (clock (snd (snd ?ps)))) \<noteq> None \<longrightarrow>
      documents (snd ?pd) = documents w"
  proof
    assume a: "fault env (clock (snd (snd ?ps))) \<noteq> None \<or> documents w document_id = None \<or>
      fault env (Suc (clock (snd (snd ?ps)))) \<noteq> None"
    with dw have b: "fault env (clock (snd (snd ?ps))) \<noteq> None \<or>
      documents (snd (snd ?ps)) document_id = None \<or>
      fault env (Suc (clock (snd (snd ?ps)))) \<noteq> None"
      by simp
    show "documents (snd ?pd) = documents w"
    proof (cases r)
      case None
      with ps have "snd ?pd = update_document_status env document_id ''completed'' None (snd (snd ?ps))"
        by (simp add: process_document_def)
      with update_document_status_swallows [OF b, of "''completed''" None] dw show ?thesis
        by simp
    next
      case (Some x)
      with ps have "snd ?pd = update_document_status env document_id ''failed''
                      (Some (fatal_error file_path x)) (snd (snd ?ps))"
        by (simp add: process_document_def)
      with update_document_status_swallows [OF b, of "''failed''" "Some (fatal_error file_path x)"] dw
      show ?thesis by simp
    qed
  qed
  from 0 1 2 3 4 5 6 dw 7 8 9 show ?thesis by blast
qed

theorem process_document_status_and_stats_witness:
  "fst (process_steps text_only_env ''report.pdf'' 7 3 fresh_world) = None \<and>
   fst (process_document text_only_env ''report.pdf'' 7 3 fresh_world) =
     \<lparr>success = True,
      result_stats =
        \<lparr>capital_calls = 0, distributions = 0, adjustments = 0, text_chunks = 1,
         tables_found = 0, pages_processed = 1, errors = []\<rparr>,
      error = None\<rparr> \<and>
   documents (snd (process_document text_only_env ''report.pdf'' 7 3 fresh_world)) 7 =
     Some \<lparr>parsing_status = ''completed'', error_message = None\<rparr> \<and>
   fst (extract_tables_from_pdf unreadable_file fresh_world) =
     Inl (Exception ''cannot open file'') \<and>
   fst (process_document unreadable_file ''report.pdf'' 7 3 fresh_world) =
     \<lparr>success = False,
      result_stats =
        \<lparr>capital_calls = 0, distributions = 0, adjustments = 0, text_chunks = 0,
         tables_found = 0, pages_processed = 0,
         errors = [''Fatal error processing document report.pdf: cannot open file'']\<rparr>,
      error = Some ''Fatal error processing document report.pdf: cannot open file''\<rparr> \<and>
   documents (snd (process_document unreadable_file ''report.pdf'' 7 3 fresh_world)) 7 =
     Some \<lparr>parsing_status = ''failed'',
           error_message = Some ''Fatal error processing document report.pdf: cannot open file''\<rparr> \<and>
   fst (process_tables file_vanishes 3 fresh_world) = None \<and>
   fst (extract_text_content file_vanishes (snd (snd (process_tables file_vanishes 3 fresh_world)))) =
     Inl (Exception ''file vanished'') \<and>
   fst (process_document file_vanishes ''report.pdf'' 7 3 fresh_world) =
     \<lparr>success = False,
      result_stats =
        \<lparr>capital_calls = 2, distributions = 0, adjustments = 0, text_chunks = 0,
         tables_found = 1, pages_processed = 0,
         errors = [''Fatal error processing document report.pdf: file vanished'']\<rparr>,
      error = Some ''Fatal error processing document report.pdf: file vanished''\<rparr> \<and>
   documents (snd (process_document file_vanishes ''report.pdf'' 7 3 fresh_world)) 7 =
     Some \<lparr>parsing_status = ''failed'',
           error_message = Some ''Fatal error processing document report.pdf: file vanished''\<rparr> \<and>
   fst (extract_tables_from_pdf embedding_fails fresh_world) = Inr [call_table_info] \<and>
   fst (extract_text_content embedding_fails
          (snd (snd (process_tables embedding_fails 3 fresh_world)))) =
     Inr [\<lparr>p_page = 1, p_text = ''Capital calls. Two calls were made.'', total_pages = 2\<rparr>,
          \<lparr>p_page = 2, p_text = ''Notes on the fund.'', total_pages = 2\<rparr>] \<and>
   fst (process_document embedding_fails ''report.pdf'' 7 3 fresh_world) =
     \<lparr>success = False,
      result_stats =
        \<lparr>capital_calls = 2, distributions = 0, adjustments = 0, text_chunks = 2,
         tables_found = 1, pages_processed = 2,
         errors = [''Fatal error processing document report.pdf: embedding service unavailable'']\<rparr>,
      error = Some ''Fatal error processing document report.pdf: embedding service unavailable''\<rparr> \<and>
   fault lost_connection
     (clock (snd (snd (process_steps lost_connection ''report.pdf'' 7 3 fresh_world)))) =
     Some (Exception ''connection lost'') \<and>
   documents (snd (process_document lost_connection ''report.pdf'' 7 3 fresh_world)) 7 =
     Some \<lparr>parsing_status = ''processing'', error_message = None\<rparr> \<and>
   fault commit_fails
     (Suc (clock (snd (snd (process_steps commit_fails ''report.pdf'' 7 3 fresh_world))))) =
     Some (Exception ''commit failed'') \<and>
   success (fst (process_document commit_fails ''report.pdf'' 7 3 fresh_world)) \<and>
   documents (snd (process_document commit_fails ''report.pdf'' 7 3 fresh_world)) 7 =
     Some \<lparr>parsing_status = ''processing'', error_message = None\<rparr> \<and>
   documents fresh_world 8 = None \<and>
   success (fst (process_document text_only_env ''report.pdf'' 8 3 fresh_world)) \<and>
   documents (snd (process_document text_only_env ''report.pdf'' 8 3 fresh_world)) 8 = None \<and>
   documents (snd (process_document text_only_env ''report.pdf'' 8 3 fresh_world)) 7 =
     Some \<lparr>parsing_status = ''processing'', error_message = None\<rparr>"
proof -
  let ?d = "\<lparr>parsing_status = ''processing'', error_message = None\<rparr>"
  let ?page1 = "\<lparr>p_page = 1, p_text = ''Capital calls. Two calls were made.'', total_pages = 2\<rparr>"
  let ?page2 = "\<lparr>p_page = 2, p_text = ''Notes on the fund.'', total_pages = 2\<rparr>"
  have d7: "documents fresh_world 7 = Some ?d" and d8: "documents fresh_world 8 = None"
    by (simp_all add: fresh_world_def)

  txt \<open>A run without an exception.\<close>
  let ?psA = "process_steps text_only_env ''report.pdf'' 7 3 fresh_world"
  let ?pdA = "process_document text_only_env ''report.pdf'' 7 3 fresh_world"
  note A = process_document_status_and_stats [where env = text_only_env
      and file_path = "''report.pdf''" and document_id = 7 and fund_id = 3 and w = fresh_world
      and d = ?d]
  have a1: "fst ?psA = None"
    by code_simp
  have a2: "fst (snd ?psA) =
              \<lparr>capital_calls = 0, distributions = 0, adjustments = 0, text_chunks = 1,
               tables_found = 0, pages_processed = 1, errors = []\<rparr>"
    by code_simp
  have a3: "fault text_only_env (clock (snd (snd ?psA))) = None \<and>
            fault text_only_env (Suc (clock (snd (snd ?psA)))) = None"
    by (simp add: text_only_env_def)
  from A a1 have "fst ?pdA = \<lparr>success = True, result_stats = fst (snd ?psA), error = None\<rparr>"
    by blast
  with a2 have a4: "fst ?pdA =
     \<lparr>success = True,
      result_stats =
        \<lparr>capital_calls = 0, distributions = 0, adjustments = 0, text_chunks = 1,
         tables_found = 0, pages_processed = 1, errors = []\<rparr>,
      error = None\<rparr>"
    by simp
  from A a1 a3 d7 have "documents (snd ?pdA) =
      (documents fresh_world)(7 \<mapsto> ?d\<lparr>parsing_status := ''completed'', error_message := None\<rparr>)"
    by blast
  then have a5: "documents (snd ?pdA) 7 =
      Some \<lparr>parsing_status = ''completed'', error_message = None\<rparr>"
    by simp

  txt \<open>The file cannot be opened for its tables.\<close>
  let ?eC = "Exception ''cannot open file''"
  let ?msgC = "''Fatal error processing document report.pdf: cannot open file''"
  let ?psC = "process_steps unreadable_file ''report.pdf'' 7 3 fresh_world"
  let ?pdC = "process_document unreadable_file ''report.pdf'' 7 3 fresh_world"
  note C = process_document_status_and_stats [where env = unreadable_file
      and file_path = "''report.pdf''" and document_id = 7 and fund_id = 3 and w = fresh_world
      and d = ?d and e = ?eC]
  have c1: "fst (extract_tables_from_pdf unreadable_file fresh_world) = Inl ?eC"
    by code_simp
  have c2: "clock (snd (snd ?psC)) = 1"
    by code_simp
  from C have c3: "fatal_error ''report.pdf'' ?eC = ?msgC"
    by simp
  from c2 have c4: "fault unreadable_file (clock (snd (snd ?psC))) = None \<and>
            fault unreadable_file (Suc (clock (snd (snd ?psC)))) = None"
    by (simp add: unreadable_file_def)
  from C c1 have c5: "fst ?psC = Some ?eC \<and> fst (snd ?psC) = initial_stats"
    by blast
  with C have "fst ?pdC =
        \<lparr>success = False,
         result_stats = (fst (snd ?psC))\<lparr>errors := errors (fst (snd ?psC)) @
                          [fatal_error ''report.pdf'' ?eC]\<rparr>,
         error = Some (fatal_error ''report.pdf'' ?eC)\<rparr>"
    by blast
  with c5 c3 have c6: "fst ?pdC =
     \<lparr>success = False,
      result_stats =
        \<lparr>capital_calls = 0, distributions = 0, adjustments = 0, text_chunks = 0,
         tables_found = 0, pages_processed = 0, errors = [?msgC]\<rparr>,
      error = Some ?msgC\<rparr>"
    by (simp add: initial_stats_def)
  from C c5 c4 d7 have "documents (snd ?pdC) =
      (documents fresh_world)(7 \<mapsto>
         ?d\<lparr>parsing_status := ''failed'', error_message := Some (fatal_error ''report.pdf'' ?eC)\<rparr>)"
    by blast
  with c3 have c7: "documents (snd ?pdC) 7 =
      Some \<lparr>parsing_status = ''failed'', error_message = Some ?msgC\<rparr>"
    by simp

  txt \<open>The file cannot be opened for its text, after two capital calls were saved.\<close>
  let ?eB = "Exception ''file vanished''"
  let ?msgB = "''Fatal error processing document report.pdf: file vanished''"
  let ?psB = "process_steps file_vanishes ''report.pdf'' 7 3 fresh_world"
  let ?ptB = "process_tables file_vanishes 3 fresh_world"
  let ?pdB = "process_document file_vanishes ''report.pdf'' 7 3 fresh_world"
  note B = process_document_status_and_stats [where env = file_vanishes
      and file_path = "''report.pdf''" and document_id = 7 and fund_id = 3 and w = fresh_world
      and d = ?d and e = ?eB]
  have b1: "fst ?ptB = None"
    by code_simp
  have b2: "fst (extract_text_content file_vanishes (snd (snd ?ptB))) = Inl ?eB"
    by code_simp
  have b3: "fst (snd ?ptB) =
              \<lparr>capital_calls = 2, distributions = 0, adjustments = 0, text_chunks = 0,
               tables_found = 1, pages_processed = 0, errors = []\<rparr>"
    by code_simp
  have b4: "clock (snd (snd ?psB)) = 3"
    by code_simp
  from B have b5: "fatal_error ''report.pdf'' ?eB = ?msgB"
    by simp
  from b4 have b6: "fault file_vanishes (clock (snd (snd ?psB))) = None \<and>
            fault file_vanishes (Suc (clock (snd (snd ?psB)))) = None"
    by (simp add: file_vanishes_def)
  from B b1 b2 have b7: "fst ?psB = Some ?eB \<and> fst (snd ?psB) = fst (snd ?ptB)"
    by blast
  with B have "fst ?pdB =
        \<lparr>success = False,
         result_stats = (fst (snd ?psB))\<lparr>errors := errors (fst (snd ?psB)) @
                          [fatal_error ''report.pdf'' ?eB]\<rparr>,
         error = Some (fatal_error ''report.pdf'' ?eB)\<rparr>"
    by blast
  with b7 b3 b5 have b8: "fst ?pdB =
     \<lparr>success = False,
      result_stats =
        \<lparr>capital_calls = 2, distributions = 0, adjustments = 0, text_chunks = 0,
         tables_found = 1, pages_processed = 0, errors = [?msgB]\<rparr>,
      error = Some ?msgB\<rparr>"
    by simp
  from B b7 b6 d7 have "documents (snd ?pdB) =
      (documents fresh_world)(7 \<mapsto>
         ?d\<lparr>parsing_status := ''failed'', error_message := Some (fatal_error ''report.pdf'' ?eB)\<rparr>)"
    by blast
  with b5 have b9: "documents (snd ?pdB) 7 =
      Some \<lparr>parsing_status = ''failed'', error_message = Some ?msgB\<rparr>"
    by simp

  txt \<open>The embedding of the first chunk fails, after the pages and the chunks were counted.\<close>
  let ?eD = "Exception ''embedding service unavailable''"
  let ?msgD = "''Fatal error processing document report.pdf: embedding service unavailable''"
  let ?psD = "process_steps embedding_fails ''report.pdf'' 7 3 fresh_world"
  let ?ptD = "process_tables embedding_fails 3 fresh_world"
  let ?pdD = "process_document embedding_fails ''report.pdf'' 7 3 fresh_world"
  note D = process_document_status_and_stats [where env = embedding_fails
      and file_path = "''report.pdf''" and document_id = 7 and fund_id = 3 and w = fresh_world
      and d = ?d and e = ?eD and tbls = "[call_table_info]" and tc = "[?page1, ?page2]"]
  have e1: "fst (extract_tables_from_pdf embedding_fails fresh_world) = Inr [call_table_info]"
    by code_simp
  have e2: "fst (extract_text_content embedding_fails (snd (snd ?ptD))) = Inr [?page1, ?page2]"
    by code_simp
  have e3: "fst (snd ?ptD) =
              \<lparr>capital_calls = 2, distributions = 0, adjustments = 0, text_chunks = 0,
               tables_found = 1, pages_processed = 0, errors = []\<rparr>"
    by code_simp
  have e4: "fst (store_chunks embedding_fails ''report.pdf'' 7 3
                   (chunk_text (settings embedding_fails) [?page1, ?page2])
                   (snd (extract_text_content embedding_fails (snd (snd ?ptD))))) = Some ?eD"
    by code_simp
  have e5: "length (chunk_text (settings embedding_fails) [?page1, ?page2]) = 2"
    by code_simp
  from D have e6: "fatal_error ''report.pdf'' ?eD = ?msgD"
    by simp
  from D e1 have e7: "fst ?ptD = None"
    by blast
  from D e7 e2 have "fst ?psD =
        fst (store_chunks embedding_fails ''report.pdf'' 7 3
               (chunk_text (settings embedding_fails) [?page1, ?page2])
               (snd (extract_text_content embedding_fails (snd (snd ?ptD))))) \<and>
      fst (snd ?psD) =
        (fst (snd ?ptD))\<lparr>pages_processed := length [?page1, ?page2],
           text_chunks := length (chunk_text (settings embedding_fails) [?page1, ?page2])\<rparr>"
    by blast
  with e3 e4 e5 have e8: "fst ?psD = Some ?eD \<and>
      fst (snd ?psD) =
        \<lparr>capital_calls = 2, distributions = 0, adjustments = 0, text_chunks = 2,
         tables_found = 1, pages_processed = 2, errors = []\<rparr>"
    by simp
  with D have "fst ?pdD =
        \<lparr>success = False,
         result_stats = (fst (snd ?psD))\<lparr>errors := errors (fst (snd ?psD)) @
                          [fatal_error ''report.pdf'' ?eD]\<rparr>,
         error = Some (fatal_error ''report.pdf'' ?eD)\<rparr>"
    by blast
  with e8 e6 have e9: "fst ?pdD =
     \<lparr>success = False,
      result_stats =
        \<lparr>capital_calls = 2, distributions = 0, adjustments = 0, text_chunks = 2,
         tables_found = 1, pages_processed = 2, errors = [?msgD]\<rparr>,
      error = Some ?msgD\<rparr>"
    by simp

  txt \<open>The lookup of the document fails.\<close>
  let ?psE = "process_steps lost_connection ''report.pdf'' 7 3 fresh_world"
  let ?pdE = "process_document lost_connection ''report.pdf'' 7 3 fresh_world"
  note E = process_document_status_and_stats [where env = lost_connection
      and file_path = "''report.pdf''" and document_id = 7 and fund_id = 3 and w = fresh_world]
  have l1: "clock (snd (snd ?psE)) = 5"
    by code_simp
  then have l2: "fault lost_connection (clock (snd (snd ?psE))) = Some (Exception ''connection lost'')"
    by (simp add: lost_connection_def)
  then have "fault lost_connection (clock (snd (snd ?psE))) \<noteq> None"
    by simp
  with E have "documents (snd ?pdE) = documents fresh_world"
    by blast
  with d7 have l3: "documents (snd ?pdE) 7 = Some ?d"
    by simp

  txt \<open>The commit of the status fails.\<close>
  let ?psF = "process_steps commit_fails ''report.pdf'' 7 3 fresh_world"
  let ?pdF = "process_document commit_fails ''report.pdf'' 7 3 fresh_world"
  note F = process_document_status_and_stats [where env = commit_fails
      and file_path = "''report.pdf''" and document_id = 7 and fund_id = 3 and w = fresh_world]
  have m1: "clock (snd (snd ?psF)) = 5"
    by code_simp
  have m2: "fst ?psF = None"
    by code_simp
  from m1 have m3: "fault commit_fails (Suc (clock (snd (snd ?psF)))) = Some (Exception ''commit failed'')"
    by (simp add: commit_fails_def)
  then have "fault commit_fails (Suc (clock (snd (snd ?psF)))) \<noteq> None"
    by simp
  with F have "documents (snd ?pdF) = documents fresh_world"
    by blast
  with d7 have m4: "documents (snd ?pdF) 7 = Some ?d"
    by simp
  from F m2 have "fst ?pdF = \<lparr>success = True, result_stats = fst (snd ?psF), error = None\<rparr>"
    by blast
  then have m5: "success (fst ?pdF)"
    by simp

  txt \<open>The document has no row.\<close>
  let ?psG = "process_steps text_only_env ''report.pdf'' 8 3 fresh_world"
  let ?pdG = "process_document text_only_env ''report.pdf'' 8 3 fresh_world"
  note G = process_document_status_and_stats [where env = text_only_env
      and file_path = "''report.pdf''" and document_id = 8 and fund_id = 3 and w = fresh_world]
  have g1: "fst ?psG = None"
    by code_simp
  from G d8 have "documents (snd ?pdG) = documents fresh_world"
    by blast
  with d7 d8 have g2: "documents (snd ?pdG) 8 = None \<and> documents (snd ?pdG) 7 = Some ?d"
    by simp
  from G g1 have "fst ?pdG = \<lparr>success = True, result_stats = fst (snd ?psG), error = None\<rparr>"
    by blast
  then have g3: "success (fst ?pdG)"
    by simp

  from a1 a4 a5 c1 c6 c7 b1 b2 b8 b9 e1 e2 e9 l2 l3 m3 m5 m4 d8 g3 g2
  show ?thesis by blast
qed

end
